theory Spec2Isabelle
  imports Complex_Main
begin

section \<open>Values and errors\<close>

text \<open>
  The operations under \<^verbatim>\<open>src/lib/operations\<close> talk to an embedded SQLite store through
  \<^verbatim>\<open>execAsync\<close>, \<^verbatim>\<open>runAsync\<close>, \<^verbatim>\<open>getFirstAsync\<close> and \<^verbatim>\<open>getAllAsync\<close>.  The store is modelled
  as a record of tables, a statement as a function from the connection to a result and the
  connection after it, and a rejected statement or a JavaScript \<^verbatim>\<open>throw\<close> as the left
  injection of a sum.

  JavaScript numbers that carry money, quantities and discounts are exact rationals here
  (no rounding, no NaN); row ids are integers.  The timestamp columns \<^verbatim>\<open>createdAt\<close>,
  \<^verbatim>\<open>updatedAt\<close> and \<^verbatim>\<open>enrollmentDate\<close> are left out: they are filled by the store's clock
  and no operation below reads them.
\<close>

type_synonym number = rat

datatype error =
    NoSuchTable string
  | NoSuchColumn string
  | ForeignKeyFailed
  | UniqueFailed string
  | TransactionWithinTransaction
  | NoTransactionActive string
  | JsError string

fun digits :: "nat \<Rightarrow> string" where
  "digits n = (if n < 10 then [char_of (48 + n)] else digits (n div 10) @ [char_of (48 + n mod 10)])"

declare digits.simps [simp del]

definition show_int :: "int \<Rightarrow> string" where
  "show_int i = (if i < 0 then CHR ''-'' # digits (nat (- i)) else digits (nat i))"

text \<open>The \<^verbatim>\<open>message\<close> property of a thrown error, as SQLite and the source word it.\<close>

fun message :: "error \<Rightarrow> string" where
  "message (NoSuchTable t) = ''no such table: '' @ t"
| "message (NoSuchColumn t) = ''no such column in table: '' @ t"
| "message ForeignKeyFailed = ''FOREIGN KEY constraint failed''"
| "message (UniqueFailed cols) = ''UNIQUE constraint failed: '' @ cols"
| "message TransactionWithinTransaction = ''cannot start a transaction within a transaction''"
| "message (NoTransactionActive what) = ''cannot '' @ what @ '' - no transaction is active''"
| "message (JsError m) = m"

section \<open>The schema of \<^verbatim>\<open>createTablesSQL\<close>\<close>

datatype table =
  Students | Departments | StudentDepartments | BillItems | Bills | BillItemRelations | Payments

text \<open>The names under which \<^verbatim>\<open>createTablesSQL\<close> creates its seven tables.\<close>

definition createTablesSQL :: "(string \<times> table) list" where
  "createTablesSQL =
    [(''students'', Students),
     (''departments'', Departments),
     (''student_departments'', StudentDepartments),
     (''bill_items'', BillItems),
     (''bills'', Bills),
     (''bill_item_relations'', BillItemRelations),
     (''payments'', Payments)]"

record student_row =
  s_id :: int
  s_firstname :: string
  s_othernames :: string
  s_phone :: string
  s_address :: string
  s_status :: "string option"
  s_isActive :: bool

record department_row =
  d_id :: int
  d_name :: string
  d_term :: string
  d_year :: string
  d_description :: "string option"
  d_startDate :: "string option"
  d_endDate :: "string option"
  d_isActive :: bool

record student_department_row =
  sd_id :: int
  sd_studentId :: int
  sd_departmentId :: int
  sd_status :: "string option"
  sd_isActive :: bool

record bill_item_row =
  bi_id :: int
  bi_name :: string
  bi_amount :: number
  bi_departmentId :: int
  bi_description :: "string option"
  bi_category :: "string option"
  bi_isRequired :: "bool option"
  bi_isActive :: "bool option"

record bill_row =
  b_id :: int
  b_name :: string
  b_studentId :: int
  b_departmentId :: int
  b_totalAmount :: number
  b_dueDate :: "string option"
  b_status :: "string option"
  b_discount :: "number option"
  b_note :: "string option"
  b_isActive :: bool

record bill_item_relation_row =
  bir_id :: int
  bir_billId :: int
  bir_billItemId :: int
  bir_amount :: number
  bir_quantity :: "number option"
  bir_discount :: "number option"
  bir_isActive :: bool

record payment_row =
  p_id :: int
  p_billId :: int
  p_studentId :: int
  p_amount :: number
  p_paymentDate :: string
  p_status :: "string option"
  p_isActive :: bool

text \<open>
  A table is its rows, in insertion order, and its \<^verbatim>\<open>sqlite_sequence\<close> entry: every id
  column is \<^verbatim>\<open>INTEGER PRIMARY KEY AUTOINCREMENT\<close>, so a new row gets one more than the
  largest id the table has ever held.
\<close>

record 'r tbl =
  rows :: "'r list"
  seq :: int

record store =
  students :: "student_row tbl"
  departments :: "department_row tbl"
  student_departments :: "student_department_row tbl"
  bill_items :: "bill_item_row tbl"
  bills :: "bill_row tbl"
  bill_item_relations :: "bill_item_relation_row tbl"
  payments :: "payment_row tbl"

text \<open>
  A connection: the tables as they stand, the tables as they stood at \<^verbatim>\<open>BEGIN\<close> while
  a transaction is open, and the connection's \<^verbatim>\<open>PRAGMA foreign_keys\<close> setting, on which
  SQLite's enforcement of every \<^verbatim>\<open>FOREIGN KEY\<close> clause and \<^verbatim>\<open>ON DELETE CASCADE\<close> depends.
\<close>

record conn =
  store :: store
  txn :: "store option"
  foreign_keys :: bool

type_synonym 'a sql = "conn \<Rightarrow> (error + 'a) \<times> conn"

definition sql_return :: "'a \<Rightarrow> 'a sql" where
  "sql_return x c = (Inr x, c)"

definition sql_throw :: "error \<Rightarrow> 'a sql" where
  "sql_throw e c = (Inl e, c)"

text \<open>\<^verbatim>\<open>await m; f\<close>: a rejection of \<open>m\<close> skips \<open>f\<close>; what \<open>m\<close> wrote stays written.\<close>

definition sql_bind :: "'a sql \<Rightarrow> ('a \<Rightarrow> 'b sql) \<Rightarrow> 'b sql" where
  "sql_bind m f c = (case m c of (Inl e, c') \<Rightarrow> (Inl e, c') | (Inr x, c') \<Rightarrow> f x c')"

text \<open>\<^verbatim>\<open>try { m } catch (error) { h error }\<close>\<close>

definition sql_catch :: "'a sql \<Rightarrow> (error \<Rightarrow> 'a sql) \<Rightarrow> 'a sql" where
  "sql_catch m h c = (case m c of (Inl e, c') \<Rightarrow> h e c' | (Inr x, c') \<Rightarrow> (Inr x, c'))"

text \<open>
  \<^verbatim>\<open>initDatabase\<close> (\<^verbatim>\<open>src/lib/db/provider.tsx\<close>) reads \<^verbatim>\<open>PRAGMA user_version\<close>; when the file is
  at \<^verbatim>\<open>DATABASE_VERSION\<close> already it returns at once, otherwise it sets
  \<^verbatim>\<open>PRAGMA foreign_keys = ON\<close> on the connection, runs \<^verbatim>\<open>createTablesSQL\<close> and stores the
  version.  The tables of this model are there from the start, so what is left of it is
  the version and the setting.
\<close>

definition DATABASE_VERSION :: int where
  "DATABASE_VERSION = 1"

definition initDatabase :: "int \<Rightarrow> conn \<Rightarrow> int \<times> conn" where
  "initDatabase currentDbVersion c =
    (if currentDbVersion \<ge> DATABASE_VERSION then (currentDbVersion, c)
     else (DATABASE_VERSION, c\<lparr>foreign_keys := True\<rparr>))"

section \<open>Statements\<close>

definition exec_BEGIN :: "unit sql" where
  "exec_BEGIN c =
    (case txn c of
       Some _ \<Rightarrow> (Inl TransactionWithinTransaction, c)
     | None \<Rightarrow> (Inr (), c\<lparr>txn := Some (store c)\<rparr>))"

definition exec_COMMIT :: "unit sql" where
  "exec_COMMIT c =
    (case txn c of
       None \<Rightarrow> (Inl (NoTransactionActive ''commit''), c)
     | Some _ \<Rightarrow> (Inr (), c\<lparr>txn := None\<rparr>))"

definition exec_ROLLBACK :: "unit sql" where
  "exec_ROLLBACK c =
    (case txn c of
       None \<Rightarrow> (Inl (NoTransactionActive ''rollback''), c)
     | Some s \<Rightarrow> (Inr (), c\<lparr>store := s, txn := None\<rparr>))"

text \<open>
  Preparing a statement resolves every table it names against the schema.  Each entry of
  \<open>refs\<close> is a name as the statement's text writes it, with the table whose columns the
  statement uses under that name: a name the schema does not have is SQLite's
  \<^verbatim>\<open>no such table\<close>, and a name of another table would leave the statement's columns
  unresolved.  Names are compared as written (the source never differs from the schema
  in letter case alone).
\<close>

fun prepare :: "(string \<times> table) list \<Rightarrow> error option" where
  "prepare [] = None"
| "prepare ((name, t) # refs) =
    (case map_of createTablesSQL name of
       None \<Rightarrow> Some (NoSuchTable name)
     | Some t' \<Rightarrow> if t' = t then prepare refs else Some (NoSuchColumn name))"

text \<open>A \<^verbatim>\<open>SELECT\<close>: the rows \<open>sel\<close> picks from the tables; it writes nothing.\<close>

definition getAllAsync :: "(string \<times> table) list \<Rightarrow> (store \<Rightarrow> 'r list) \<Rightarrow> 'r list sql" where
  "getAllAsync refs sel c =
    (case prepare refs of Some e \<Rightarrow> (Inl e, c) | None \<Rightarrow> (Inr (sel (store c)), c))"

text \<open>\<^verbatim>\<open>getFirstAsync\<close> gives the first row, or \<^verbatim>\<open>null\<close> when there is none.\<close>

definition getFirstAsync :: "(string \<times> table) list \<Rightarrow> (store \<Rightarrow> 'r list) \<Rightarrow> 'r option sql" where
  "getFirstAsync refs sel c =
    (case prepare refs of
       Some e \<Rightarrow> (Inl e, c)
     | None \<Rightarrow> (Inr (case sel (store c) of [] \<Rightarrow> None | r # _ \<Rightarrow> Some r), c))"

definition next_rowid :: "int list \<Rightarrow> int \<Rightarrow> int" where
  "next_rowid ids sq = max sq (fold max ids 0) + 1"

text \<open>
  \<^verbatim>\<open>INSERT INTO <name> (studentId, departmentId, status, isActive) VALUES (?, ?, ?, ?)\<close>
  against \<^verbatim>\<open>student_departments\<close>: \<^verbatim>\<open>UNIQUE(studentId, departmentId)\<close>, and both foreign
  keys when the connection enforces them.  The result is \<^verbatim>\<open>lastInsertRowId\<close>.
\<close>

definition insert_student_departments ::
  "string \<Rightarrow> int \<Rightarrow> int \<Rightarrow> string \<Rightarrow> bool \<Rightarrow> int sql" where
  "insert_student_departments name studentId departmentId status isActive c =
    (case prepare [(name, StudentDepartments)] of
       Some e \<Rightarrow> (Inl e, c)
     | None \<Rightarrow>
        let s = store c; t = student_departments s in
        if \<exists>r \<in> set (rows t). sd_studentId r = studentId \<and> sd_departmentId r = departmentId
        then (Inl (UniqueFailed ''student_departments.studentId, student_departments.departmentId''), c)
        else if foreign_keys c \<and>
                \<not> (studentId \<in> set (map s_id (rows (students s))) \<and>
                   departmentId \<in> set (map d_id (rows (departments s))))
        then (Inl ForeignKeyFailed, c)
        else
          let i = next_rowid (map sd_id (rows t)) (seq t);
              r = \<lparr>sd_id = i, sd_studentId = studentId, sd_departmentId = departmentId,
                   sd_status = Some status, sd_isActive = isActive\<rparr>
          in (Inr i, c\<lparr>store := s\<lparr>student_departments := \<lparr>rows = rows t @ [r], seq = i\<rparr>\<rparr>\<rparr>))"

section \<open>Enrollment (\<^verbatim>\<open>src/lib/operations/enrollments.ts\<close>)\<close>

record BulkEnrollmentResult =
  successCount :: nat
  errors :: "(int \<times> string) list"

text \<open>One turn of the loop of \<^verbatim>\<open>bulkEnroll\<close>: the inner \<^verbatim>\<open>try\<close> with its \<^verbatim>\<open>catch\<close>.\<close>

definition enroll_one :: "int \<Rightarrow> int \<Rightarrow> BulkEnrollmentResult \<Rightarrow> BulkEnrollmentResult sql" where
  "enroll_one departmentId studentId result =
    sql_catch
      (sql_bind
        (getFirstAsync [(''students'', Students)]
           (\<lambda>s. filter (\<lambda>r. s_id r = studentId) (rows (students s))))
        (\<lambda>student. case student of
           None \<Rightarrow> sql_return (result\<lparr>errors := errors result @ [(studentId, ''Student not found'')]\<rparr>)
         | Some _ \<Rightarrow>
            sql_bind
              (getFirstAsync [(''student_departments'', StudentDepartments)]
                 (\<lambda>s. filter (\<lambda>r. sd_studentId r = studentId \<and> sd_departmentId r = departmentId)
                        (rows (student_departments s))))
              (\<lambda>existingEnrollment. case existingEnrollment of
                 Some _ \<Rightarrow>
                   sql_return (result\<lparr>errors := errors result @ [(studentId, ''Already enrolled'')]\<rparr>)
               | None \<Rightarrow>
                   sql_bind
                     (insert_student_departments ''student_departments''
                        studentId departmentId ''active'' True)
                     (\<lambda>_. sql_return (result\<lparr>successCount := successCount result + 1\<rparr>)))))
      (\<lambda>e. sql_return (result\<lparr>errors := errors result @ [(studentId, message e)]\<rparr>))"

fun enroll_loop :: "int \<Rightarrow> int list \<Rightarrow> BulkEnrollmentResult \<Rightarrow> BulkEnrollmentResult sql" where
  "enroll_loop departmentId [] result = sql_return result"
| "enroll_loop departmentId (studentId # studentIds) result =
    sql_bind (enroll_one departmentId studentId result) (enroll_loop departmentId studentIds)"

definition bulkEnroll :: "int \<Rightarrow> int list \<Rightarrow> BulkEnrollmentResult sql" where
  "bulkEnroll departmentId studentIds =
    sql_bind exec_BEGIN (\<lambda>_.
      sql_catch
        (sql_bind
          (getFirstAsync [(''departments'', Departments)]
             (\<lambda>s. filter (\<lambda>r. d_id r = departmentId) (rows (departments s))))
          (\<lambda>department. case department of
             None \<Rightarrow>
               sql_throw (JsError (''Department with ID '' @ show_int departmentId @ '' not found''))
           | Some _ \<Rightarrow>
               sql_bind (enroll_loop departmentId studentIds \<lparr>successCount = 0, errors = []\<rparr>)
                 (\<lambda>result. sql_bind exec_COMMIT (\<lambda>_. sql_return result))))
        (\<lambda>e. sql_bind exec_ROLLBACK (\<lambda>_. sql_throw e)))"

text \<open>
  \<^verbatim>\<open>UPDATE <name> SET isActive = 0, status = "withdrawn", ... WHERE studentId = ? AND
  departmentId = ?\<close>; the result is \<^verbatim>\<open>changes\<close>.  (SQLite reads the double-quoted
  \<^verbatim>\<open>"withdrawn"\<close> as a string literal, there being no such column.)
\<close>

definition update_student_departments_withdrawn :: "string \<Rightarrow> int \<Rightarrow> int \<Rightarrow> nat sql" where
  "update_student_departments_withdrawn name studentId departmentId c =
    (case prepare [(name, StudentDepartments)] of
       Some e \<Rightarrow> (Inl e, c)
     | None \<Rightarrow>
        let s = store c; t = student_departments s;
            hit = (\<lambda>r. sd_studentId r = studentId \<and> sd_departmentId r = departmentId)
        in (Inr (length (filter hit (rows t))),
            c\<lparr>store := s\<lparr>student_departments :=
                 t\<lparr>rows := map (\<lambda>r. if hit r
                                     then r\<lparr>sd_isActive := False, sd_status := Some ''withdrawn''\<rparr>
                                     else r) (rows t)\<rparr>\<rparr>\<rparr>))"

text \<open>\<^verbatim>\<open>unenrollStudent\<close> never throws: its \<^verbatim>\<open>catch\<close> logs and returns \<^verbatim>\<open>false\<close>.\<close>

definition unenrollStudent :: "int \<Rightarrow> int \<Rightarrow> bool sql" where
  "unenrollStudent studentId departmentId =
    sql_catch
      (sql_bind
        (update_student_departments_withdrawn ''student_departments'' studentId departmentId)
        (\<lambda>changes. sql_return (changes > 0)))
      (\<lambda>e. sql_return False)"

section \<open>Bills (\<^verbatim>\<open>src/lib/operations/bills.ts\<close>)\<close>

text \<open>JavaScript's \<^verbatim>\<open>x || d\<close> on an optional number (zero is falsy), \<^verbatim>\<open>x ?? d\<close>, and
  \<^verbatim>\<open>x || null\<close> on an optional string (the empty string is falsy).\<close>

definition number_or :: "number option \<Rightarrow> number \<Rightarrow> number" where
  "number_or x d = (case x of None \<Rightarrow> d | Some v \<Rightarrow> if v = 0 then d else v)"

definition number_nullish :: "number option \<Rightarrow> number \<Rightarrow> number" where
  "number_nullish x d = (case x of None \<Rightarrow> d | Some v \<Rightarrow> v)"

definition string_or_null :: "string option \<Rightarrow> string option" where
  "string_or_null x = (case x of None \<Rightarrow> None | Some v \<Rightarrow> if v = [] then None else Some v)"

text \<open>
  \<^verbatim>\<open>INSERT INTO <name> (name, studentId, departmentId, totalAmount, ...)\<close> against \<^verbatim>\<open>bills\<close>.
  The two inserts of the source differ in the optional columns they name; a column an
  insert does not name takes the schema's default, passed here by the caller
  (\<^verbatim>\<open>status DEFAULT 'pending'\<close>); \<^verbatim>\<open>discount\<close> is never named and defaults to 0.
\<close>

definition insert_bills ::
  "string \<Rightarrow> string \<Rightarrow> int \<Rightarrow> int \<Rightarrow> number \<Rightarrow> string option \<Rightarrow> string option \<Rightarrow> string option \<Rightarrow> int sql"
  where
  "insert_bills name bname studentId departmentId tot dueDate status note c =
    (case prepare [(name, Bills)] of
       Some e \<Rightarrow> (Inl e, c)
     | None \<Rightarrow>
        let s = store c; t = bills s in
        if foreign_keys c \<and>
           \<not> (studentId \<in> set (map s_id (rows (students s))) \<and>
              departmentId \<in> set (map d_id (rows (departments s))))
        then (Inl ForeignKeyFailed, c)
        else
          let i = next_rowid (map b_id (rows t)) (seq t);
              r = \<lparr>b_id = i, b_name = bname, b_studentId = studentId,
                   b_departmentId = departmentId, b_totalAmount = tot, b_dueDate = dueDate,
                   b_status = status, b_discount = Some 0, b_note = note, b_isActive = True\<rparr>
          in (Inr i, c\<lparr>store := s\<lparr>bills := \<lparr>rows = rows t @ [r], seq = i\<rparr>\<rparr>\<rparr>))"

text \<open>\<^verbatim>\<open>INSERT INTO <name> (billId, billItemId, amount, quantity[, discount])\<close> against
  \<^verbatim>\<open>bill_item_relations\<close>.\<close>

definition insert_bill_item_relations ::
  "string \<Rightarrow> int \<Rightarrow> int \<Rightarrow> number \<Rightarrow> number \<Rightarrow> number \<Rightarrow> int sql" where
  "insert_bill_item_relations name billId billItemId amount quantity discount c =
    (case prepare [(name, BillItemRelations)] of
       Some e \<Rightarrow> (Inl e, c)
     | None \<Rightarrow>
        let s = store c; t = bill_item_relations s in
        if foreign_keys c \<and>
           \<not> (billId \<in> set (map b_id (rows (bills s))) \<and>
              billItemId \<in> set (map bi_id (rows (bill_items s))))
        then (Inl ForeignKeyFailed, c)
        else
          let i = next_rowid (map bir_id (rows t)) (seq t);
              r = \<lparr>bir_id = i, bir_billId = billId, bir_billItemId = billItemId,
                   bir_amount = amount, bir_quantity = Some quantity,
                   bir_discount = Some discount, bir_isActive = True\<rparr>
          in (Inr i, c\<lparr>store := s\<lparr>bill_item_relations := \<lparr>rows = rows t @ [r], seq = i\<rparr>\<rparr>\<rparr>))"

text \<open>\<^verbatim>\<open>UPDATE <name> SET totalAmount = ? WHERE id = ?\<close>\<close>

definition update_bills_totalAmount :: "string \<Rightarrow> number \<Rightarrow> int \<Rightarrow> nat sql" where
  "update_bills_totalAmount name tot billId c =
    (case prepare [(name, Bills)] of
       Some e \<Rightarrow> (Inl e, c)
     | None \<Rightarrow>
        let s = store c; t = bills s in
        (Inr (length (filter (\<lambda>r. b_id r = billId) (rows t))),
         c\<lparr>store := s\<lparr>bills :=
              t\<lparr>rows := map (\<lambda>r. if b_id r = billId then r\<lparr>b_totalAmount := tot\<rparr> else r)
                              (rows t)\<rparr>\<rparr>\<rparr>))"

subsection \<open>\<^verbatim>\<open>createBillsForDepartment\<close>\<close>

record BillItemRequest =
  req_billItemId :: int
  req_amount :: "number option"
  req_quantity :: "number option"

record BulkBillResult =
  billsCreated :: nat
  totalAmount :: number
  bill_errors :: "(int \<times> string) list"

text \<open>The inner loop over \<^verbatim>\<open>billItems\<close>: \<^verbatim>\<open>studentTotal\<close> and \<^verbatim>\<open>itemRelations\<close> so far.\<close>

fun price_items ::
  "BillItemRequest list \<Rightarrow> number \<Rightarrow> (int \<times> number \<times> number) list \<Rightarrow>
   (number \<times> (int \<times> number \<times> number) list) sql" where
  "price_items [] studentTotal itemRelations = sql_return (studentTotal, itemRelations)"
| "price_items (item # billItems) studentTotal itemRelations =
    sql_bind
      (case req_amount item of
         Some a \<Rightarrow> sql_return a
       | None \<Rightarrow>
          sql_bind
            (getFirstAsync [(''billItems'', BillItems)]
               (\<lambda>s. map bi_amount (filter (\<lambda>r. bi_id r = req_billItemId item) (rows (bill_items s)))))
            (\<lambda>billItem. case billItem of
               None \<Rightarrow> sql_throw (JsError (''BillItem with ID '' @ show_int (req_billItemId item)
                                            @ '' not found or has no amount''))
             | Some a \<Rightarrow> sql_return a))
      (\<lambda>amount.
         let quantity = number_nullish (req_quantity item) 1 in
         price_items billItems (studentTotal + amount * quantity)
           (itemRelations @ [(req_billItemId item, amount, quantity)]))"

fun add_relations :: "int \<Rightarrow> (int \<times> number \<times> number) list \<Rightarrow> unit sql" where
  "add_relations billId [] = sql_return ()"
| "add_relations billId ((billItemId, amount, quantity) # itemRelations) =
    sql_bind (insert_bill_item_relations ''billItemRelations'' billId billItemId amount quantity 0)
      (\<lambda>_. add_relations billId itemRelations)"

text \<open>
  One turn of the loop over the students, with its \<^verbatim>\<open>catch\<close>.  A row read from
  \<^verbatim>\<open>students\<close> always has its id, so the \<^verbatim>\<open>student.id === undefined\<close> test cannot fire;
  \<^verbatim>\<open>billName || ''\<close> is \<^verbatim>\<open>billName\<close>, and \<^verbatim>\<open>student.id || 0\<close> is the id.
\<close>

definition bill_one ::
  "int \<Rightarrow> BillItemRequest list \<Rightarrow> string \<Rightarrow> student_row \<Rightarrow> BulkBillResult \<Rightarrow> BulkBillResult sql"
  where
  "bill_one departmentId billItems billName student result =
    sql_catch
      (sql_bind (price_items billItems 0 [])
        (\<lambda>(studentTotal, itemRelations).
           sql_bind
             (insert_bills ''bills'' billName (s_id student) departmentId studentTotal
                None (Some ''pending'') None)
             (\<lambda>billId.
                sql_bind (add_relations billId itemRelations)
                  (\<lambda>_. sql_return (result\<lparr>billsCreated := billsCreated result + 1,
                                           totalAmount := totalAmount result + studentTotal\<rparr>)))))
      (\<lambda>e. sql_return (result\<lparr>bill_errors := bill_errors result @ [(s_id student, message e)]\<rparr>))"

fun bill_loop ::
  "int \<Rightarrow> BillItemRequest list \<Rightarrow> string \<Rightarrow> student_row list \<Rightarrow> BulkBillResult \<Rightarrow>
   BulkBillResult sql" where
  "bill_loop departmentId billItems billName [] result = sql_return result"
| "bill_loop departmentId billItems billName (student # rest) result =
    sql_bind (bill_one departmentId billItems billName student result)
      (bill_loop departmentId billItems billName rest)"

text \<open>\<^verbatim>\<open>SELECT s.* FROM students s JOIN <sd> sd ON s.id = sd.studentId WHERE ...\<close>: one row
  per pair of a student and a junction row that \<open>keep\<close> accepts.\<close>

definition students_joined ::
  "(student_department_row \<Rightarrow> bool) \<Rightarrow> store \<Rightarrow> student_row list" where
  "students_joined keep s =
    concat (map (\<lambda>st. map (\<lambda>_. st)
                   (filter (\<lambda>sd. s_id st = sd_studentId sd \<and> keep sd) (rows (student_departments s))))
              (rows (students s)))"

definition createBillsForDepartment ::
  "int \<Rightarrow> BillItemRequest list \<Rightarrow> string \<Rightarrow> BulkBillResult sql" where
  "createBillsForDepartment departmentId billItems billName =
    sql_bind exec_BEGIN (\<lambda>_.
      sql_catch
        (sql_bind
          (getAllAsync [(''departments'', Departments)]
             (\<lambda>s. filter (\<lambda>r. d_id r = departmentId) (rows (departments s))))
          (\<lambda>department.
             if department = []
             then sql_throw (JsError (''Department with ID '' @ show_int departmentId @ '' not found''))
             else
               sql_bind
                 (getAllAsync [(''students'', Students), (''studentDepartments'', StudentDepartments)]
                    (students_joined (\<lambda>sd. sd_departmentId sd = departmentId \<and> sd_isActive sd)))
                 (\<lambda>enrolledStudents.
                    sql_bind
                      (bill_loop departmentId billItems billName enrolledStudents
                         \<lparr>billsCreated = 0, totalAmount = 0, bill_errors = []\<rparr>)
                      (\<lambda>result. sql_bind exec_COMMIT (\<lambda>_. sql_return result)))))
        (\<lambda>e. sql_bind exec_ROLLBACK (\<lambda>_. sql_throw e)))"

subsection \<open>\<^verbatim>\<open>createBillWithItems\<close>\<close>

record BillItemLine =
  line_billItemId :: int
  line_amount :: "number option"
  line_quantity :: "number option"
  line_discount :: "number option"

record CreateBillWithItemsPayload =
  cb_studentId :: int
  cb_departmentId :: int
  cb_name :: string
  cb_dueDate :: "string option"
  cb_items :: "BillItemLine list"
  cb_note :: "string option"

record Bill =
  bill_id :: int
  bill_name :: string
  bill_studentId :: int
  bill_departmentId :: int
  bill_totalAmount :: number
  bill_dueDate :: "string option"
  bill_note :: "string option"

text \<open>The loop over \<^verbatim>\<open>bill.items\<close>, with \<^verbatim>\<open>totalAmount\<close> so far.\<close>

fun add_lines :: "int \<Rightarrow> BillItemLine list \<Rightarrow> number \<Rightarrow> number sql" where
  "add_lines billId [] tot = sql_return tot"
| "add_lines billId (item # items) tot =
    (let itemAmount = number_or (line_amount item) 0;
         quantity = number_or (line_quantity item) 1;
         discount = number_or (line_discount item) 0
     in sql_bind
          (insert_bill_item_relations ''bill_item_relations'' billId (line_billItemId item)
             itemAmount quantity discount)
          (\<lambda>_. add_lines billId items (tot + ((itemAmount * quantity) - discount))))"

definition createBillWithItems :: "CreateBillWithItemsPayload \<Rightarrow> Bill sql" where
  "createBillWithItems bill =
    sql_catch
      (sql_bind exec_BEGIN (\<lambda>_.
        sql_bind
          (insert_bills ''bills'' (cb_name bill) (cb_studentId bill) (cb_departmentId bill) 0
             (string_or_null (cb_dueDate bill)) (Some ''pending'') (string_or_null (cb_note bill)))
          (\<lambda>billId.
             sql_bind (add_lines billId (cb_items bill) 0)
               (\<lambda>tot.
                  sql_bind (update_bills_totalAmount ''bills'' tot billId)
                    (\<lambda>_. sql_bind exec_COMMIT
                       (\<lambda>_. sql_return
                          \<lparr>bill_id = billId, bill_name = cb_name bill,
                           bill_studentId = cb_studentId bill,
                           bill_departmentId = cb_departmentId bill,
                           bill_totalAmount = tot, bill_dueDate = cb_dueDate bill,
                           bill_note = cb_note bill\<rparr>))))))
      (\<lambda>e. sql_bind exec_ROLLBACK (\<lambda>_. sql_throw e))"


section \<open>Departments and bill items (\<^verbatim>\<open>departments.ts\<close> and \<^verbatim>\<open>bill-items.ts\<close>, in \<^verbatim>\<open>src/lib/operations/students.ts\<close>)\<close>

record NewBillItem =
  nb_name :: string
  nb_amount :: number
  nb_departmentId :: int
  nb_description :: "string option"
  nb_category :: "string option"
  nb_isRequired :: "bool option"

record BillItem =
  item_id :: int
  item_name :: string
  item_amount :: number
  item_departmentId :: int
  item_description :: "string option"
  item_category :: "string option"
  item_isRequired :: "bool option"

text \<open>
  \<^verbatim>\<open>INSERT INTO <name> (name, amount, departmentId, description, category, isRequired)\<close>
  against \<^verbatim>\<open>bill_items\<close>.  An absent \<^verbatim>\<open>isRequired\<close> is bound as \<^verbatim>\<open>null\<close> and stored as
  such; \<^verbatim>\<open>isActive\<close> takes its default 1.
\<close>

definition insert_bill_items :: "string \<Rightarrow> NewBillItem \<Rightarrow> int sql" where
  "insert_bill_items name billItem c =
    (case prepare [(name, BillItems)] of
       Some e \<Rightarrow> (Inl e, c)
     | None \<Rightarrow>
        let s = store c; t = bill_items s in
        if foreign_keys c \<and> nb_departmentId billItem \<notin> set (map d_id (rows (departments s)))
        then (Inl ForeignKeyFailed, c)
        else
          let i = next_rowid (map bi_id (rows t)) (seq t);
              r = \<lparr>bi_id = i, bi_name = nb_name billItem, bi_amount = nb_amount billItem,
                   bi_departmentId = nb_departmentId billItem,
                   bi_description = nb_description billItem,
                   bi_category = nb_category billItem,
                   bi_isRequired = nb_isRequired billItem, bi_isActive = Some True\<rparr>
          in (Inr i, c\<lparr>store := s\<lparr>bill_items := \<lparr>rows = rows t @ [r], seq = i\<rparr>\<rparr>\<rparr>))"

text \<open>\<^verbatim>\<open>addBillItem\<close>: its \<^verbatim>\<open>catch\<close> logs and rethrows.\<close>

definition addBillItem :: "NewBillItem \<Rightarrow> BillItem sql" where
  "addBillItem billItem =
    sql_catch
      (sql_bind (insert_bill_items ''bill_items'' billItem)
        (\<lambda>lastInsertRowId. sql_return
           \<lparr>item_id = lastInsertRowId, item_name = nb_name billItem,
            item_amount = nb_amount billItem, item_departmentId = nb_departmentId billItem,
            item_description = nb_description billItem, item_category = nb_category billItem,
            item_isRequired = nb_isRequired billItem\<rparr>))
      (\<lambda>e. sql_throw e)"

text \<open>
  \<^verbatim>\<open>DELETE FROM <name> WHERE departmentId = ?\<close> against \<^verbatim>\<open>bill_items\<close>.  When the
  connection enforces foreign keys, \<^verbatim>\<open>ON DELETE CASCADE\<close> takes the relation rows of the
  deleted items with them.
\<close>

definition delete_bill_items_of_department :: "string \<Rightarrow> int \<Rightarrow> nat sql" where
  "delete_bill_items_of_department name departmentId c =
    (case prepare [(name, BillItems)] of
       Some e \<Rightarrow> (Inl e, c)
     | None \<Rightarrow>
        let s = store c; t = bill_items s;
            gone = filter (\<lambda>r. bi_departmentId r = departmentId) (rows t);
            s1 = s\<lparr>bill_items := t\<lparr>rows := filter (\<lambda>r. bi_departmentId r \<noteq> departmentId) (rows t)\<rparr>\<rparr>;
            rel = bill_item_relations s;
            s2 = (if foreign_keys c
                  then s1\<lparr>bill_item_relations :=
                          rel\<lparr>rows := filter (\<lambda>r. bir_billItemId r \<notin> set (map bi_id gone)) (rows rel)\<rparr>\<rparr>
                  else s1)
        in (Inr (length gone), c\<lparr>store := s2\<rparr>))"

record BillItemFields =
  bf_name :: string
  bf_amount :: number
  bf_description :: "string option"
  bf_category :: "string option"
  bf_isRequired :: "bool option"

record DepartmentUpdate =
  dep_id :: "int option"
  dep_name :: string
  dep_term :: string
  dep_year :: string
  dep_description :: "string option"
  dep_startDate :: "string option"
  dep_endDate :: "string option"
  dep_billItems :: "BillItemFields list option"

text \<open>\<^verbatim>\<open>UPDATE <name> SET name = ?, term = ?, year = ?, description = ?, startDate = ?,
  endDate = ? WHERE id = ?\<close> against \<^verbatim>\<open>departments\<close>.\<close>

definition update_departments :: "string \<Rightarrow> DepartmentUpdate \<Rightarrow> int \<Rightarrow> nat sql" where
  "update_departments name department i c =
    (case prepare [(name, Departments)] of
       Some e \<Rightarrow> (Inl e, c)
     | None \<Rightarrow>
        let s = store c; t = departments s in
        (Inr (length (filter (\<lambda>r. d_id r = i) (rows t))),
         c\<lparr>store := s\<lparr>departments :=
              t\<lparr>rows := map (\<lambda>r. if d_id r = i
                                  then r\<lparr>d_name := dep_name department, d_term := dep_term department,
                                         d_year := dep_year department,
                                         d_description := string_or_null (dep_description department),
                                         d_startDate := string_or_null (dep_startDate department),
                                         d_endDate := string_or_null (dep_endDate department)\<rparr>
                                  else r) (rows t)\<rparr>\<rparr>\<rparr>))"

text \<open>The loop of \<^verbatim>\<open>updateDepartment\<close> over the supplied items.\<close>

fun add_items :: "int \<Rightarrow> BillItemFields list \<Rightarrow> unit sql" where
  "add_items departmentId [] = sql_return ()"
| "add_items departmentId (item # billItems) =
    sql_bind
      (addBillItem \<lparr>nb_name = bf_name item, nb_amount = bf_amount item,
                    nb_departmentId = departmentId, nb_description = bf_description item,
                    nb_category = bf_category item, nb_isRequired = bf_isRequired item\<rparr>)
      (\<lambda>_. add_items departmentId billItems)"

definition updateDepartment :: "DepartmentUpdate \<Rightarrow> DepartmentUpdate sql" where
  "updateDepartment department =
    (case dep_id department of
       None \<Rightarrow> sql_throw (JsError ''Department ID is required for update'')
     | Some i \<Rightarrow>
        if i = 0 then sql_throw (JsError ''Department ID is required for update'')
        else
          sql_bind exec_BEGIN (\<lambda>_.
            sql_catch
              (sql_bind (update_departments ''departments'' department i)
                (\<lambda>_. sql_bind
                   (case dep_billItems department of
                      None \<Rightarrow> sql_return ()
                    | Some billItems \<Rightarrow>
                       sql_bind (delete_bill_items_of_department ''bill_items'' i)
                         (\<lambda>_. add_items i billItems))
                   (\<lambda>_. sql_bind exec_COMMIT (\<lambda>_. sql_return department))))
              (\<lambda>e. sql_bind exec_ROLLBACK (\<lambda>_. sql_throw e))))"

text \<open>\<^verbatim>\<open>getStudentsInDepartmentById\<close>: its \<^verbatim>\<open>catch\<close> logs and rethrows.\<close>

definition getStudentsInDepartmentById :: "int \<Rightarrow> student_row list sql" where
  "getStudentsInDepartmentById departmentId =
    sql_catch
      (getAllAsync [(''students'', Students), (''student_department'', StudentDepartments)]
         (students_joined (\<lambda>sd. sd_departmentId sd = departmentId)))
      (\<lambda>e. sql_throw e)"


section \<open>Student search (\<^verbatim>\<open>src/lib/operations/students.ts\<close>)\<close>

datatype sqlvalue = SqlNull | SqlInteger int | SqlText string

datatype jsnumber = Finite int | Infinity | NaN

datatype direction = Asc | Desc

text \<open>The conditions \<^verbatim>\<open>searchStudents\<close> collects in \<^verbatim>\<open>whereConditions\<close>, each with its
  bound parameters: \<^verbatim>\<open>isActive = 1\<close>, the four-column \<^verbatim>\<open>LIKE ?\<close> group, \<^verbatim>\<open><field> = ?\<close>.\<close>

datatype condition = IsActive | LikeAnyColumn string | ColumnEquals string sqlvalue

record SearchOptions =
  so_query :: string
  so_fields :: "string list"
  so_filters :: "(string \<times> sqlvalue) list option"
  so_sortBy :: "string option"
  so_sortOrder :: "direction option"

record PaginationOptions =
  page :: int
  pageSize :: int

record SearchStudentsOptions =
  searchOptions :: "SearchOptions option"
  pagination :: "PaginationOptions option"
  includeInactive :: "bool option"

record PaginatedResult =
  pr_data :: "student_row list"
  pr_total :: int
  pr_page :: int
  pr_pageSize :: int
  pr_totalPages :: jsnumber

definition lower_ascii :: "char \<Rightarrow> char" where
  "lower_ascii ch =
    (let n = (of_char ch :: nat) in if 65 \<le> n \<and> n \<le> 90 then char_of (n + 32) else ch)"

text \<open>SQLite's \<^verbatim>\<open>LIKE\<close>: \<^verbatim>\<open>%\<close> stands for any run of characters, \<^verbatim>\<open>_\<close> for any one, and
  ASCII letters match without regard to case.\<close>

fun like :: "string \<Rightarrow> string \<Rightarrow> bool" where
  "like [] txt = (txt = [])"
| "like (p # ps) [] = (p = CHR ''%'' \<and> like ps [])"
| "like (p # ps) (ch # chs) =
    (if p = CHR ''%'' then like ps (ch # chs) \<or> like (p # ps) chs
     else (p = CHR ''_'' \<or> lower_ascii p = lower_ascii ch) \<and> like ps chs)"

definition is_space :: "char \<Rightarrow> bool" where
  "is_space ch = ((of_char ch :: nat) \<in> {9, 10, 11, 12, 13, 32})"

definition trim :: "string \<Rightarrow> string" where
  "trim str = rev (dropWhile is_space (rev (dropWhile is_space str)))"

text \<open>The columns of \<^verbatim>\<open>students\<close> by name (the timestamp columns apart).\<close>

definition student_column :: "string \<Rightarrow> (student_row \<Rightarrow> sqlvalue) option" where
  "student_column field =
    (if field = ''id'' then Some (\<lambda>r. SqlInteger (s_id r))
     else if field = ''firstname'' then Some (\<lambda>r. SqlText (s_firstname r))
     else if field = ''othernames'' then Some (\<lambda>r. SqlText (s_othernames r))
     else if field = ''phone'' then Some (\<lambda>r. SqlText (s_phone r))
     else if field = ''address'' then Some (\<lambda>r. SqlText (s_address r))
     else if field = ''status''
       then Some (\<lambda>r. case s_status r of None \<Rightarrow> SqlNull | Some v \<Rightarrow> SqlText v)
     else if field = ''isActive'' then Some (\<lambda>r. SqlInteger (if s_isActive r then 1 else 0))
     else None)"

fun compile_condition :: "condition \<Rightarrow> error + (student_row \<Rightarrow> bool)" where
  "compile_condition IsActive = Inr s_isActive"
| "compile_condition (LikeAnyColumn pat) =
    Inr (\<lambda>r. like pat (s_firstname r) \<or> like pat (s_othernames r) \<or>
              like pat (s_phone r) \<or> like pat (s_address r))"
| "compile_condition (ColumnEquals field v) =
    (case student_column field of
       None \<Rightarrow> Inl (NoSuchColumn field)
     | Some col \<Rightarrow> Inr (\<lambda>r. v \<noteq> SqlNull \<and> col r = v))"

text \<open>The conjunction of the conditions, or the first error among them.\<close>

fun compile_where :: "condition list \<Rightarrow> error + (student_row \<Rightarrow> bool)" where
  "compile_where [] = Inr (\<lambda>r. True)"
| "compile_where (cond # conds) =
    (case compile_condition cond of
       Inl e \<Rightarrow> Inl e
     | Inr p \<Rightarrow> (case compile_where conds of
                   Inl e \<Rightarrow> Inl e
                 | Inr q \<Rightarrow> Inr (\<lambda>r. p r \<and> q r)))"

text \<open>The order of stored values: \<^verbatim>\<open>NULL\<close>, then integers, then text byte by byte.\<close>

fun string_le :: "string \<Rightarrow> string \<Rightarrow> bool" where
  "string_le [] t = True"
| "string_le (a # as) [] = False"
| "string_le (a # as) (b # bs) =
    ((of_char a :: nat) < of_char b \<or> (a = b \<and> string_le as bs))"

fun value_le :: "sqlvalue \<Rightarrow> sqlvalue \<Rightarrow> bool" where
  "value_le SqlNull v = True"
| "value_le (SqlInteger i) SqlNull = False"
| "value_le (SqlInteger i) (SqlInteger j) = (i \<le> j)"
| "value_le (SqlInteger i) (SqlText t) = True"
| "value_le (SqlText s) (SqlText t) = string_le s t"
| "value_le (SqlText s) v = False"

fun insert_by :: "('a \<Rightarrow> 'a \<Rightarrow> bool) \<Rightarrow> 'a \<Rightarrow> 'a list \<Rightarrow> 'a list" where
  "insert_by le x [] = [x]"
| "insert_by le x (y # ys) = (if le x y then x # y # ys else y # insert_by le x ys)"

definition order_by :: "(string \<times> direction) option \<Rightarrow> student_row list \<Rightarrow> error + student_row list"
  where
  "order_by ord rs =
    (case ord of
       None \<Rightarrow> Inr rs
     | Some (field, dir) \<Rightarrow>
        (case student_column field of
           None \<Rightarrow> Inl (NoSuchColumn field)
         | Some col \<Rightarrow>
            Inr (foldr (insert_by (\<lambda>a b. case dir of
                                            Asc \<Rightarrow> value_le (col a) (col b)
                                          | Desc \<Rightarrow> value_le (col b) (col a))) rs [])))"

text \<open>\<^verbatim>\<open>LIMIT ? OFFSET ?\<close>: a negative offset counts as 0, a negative limit as none.\<close>

definition limit_offset :: "int \<Rightarrow> int \<Rightarrow> 'a list \<Rightarrow> 'a list" where
  "limit_offset n off rs =
    (let rest = drop (nat off) rs in if n < 0 then rest else take (nat n) rest)"

text \<open>\<^verbatim>\<open>SELECT * FROM students [WHERE ...] [ORDER BY ...] [LIMIT ? OFFSET ?]\<close>\<close>

definition select_students ::
  "condition list \<Rightarrow> (string \<times> direction) option \<Rightarrow> (int \<times> int) option \<Rightarrow> student_row list sql"
  where
  "select_students conds ord window c =
    (case prepare [(''students'', Students)] of
       Some e \<Rightarrow> (Inl e, c)
     | None \<Rightarrow>
        (case compile_where conds of
           Inl e \<Rightarrow> (Inl e, c)
         | Inr p \<Rightarrow>
            (case order_by ord (filter p (rows (students (store c)))) of
               Inl e \<Rightarrow> (Inl e, c)
             | Inr sorted_rows \<Rightarrow>
                (Inr (case window of
                        None \<Rightarrow> sorted_rows
                      | Some (l, off) \<Rightarrow> limit_offset l off sorted_rows), c))))"

text \<open>\<^verbatim>\<open>SELECT COUNT(*) as total FROM students [WHERE ...]\<close>\<close>

definition count_students :: "condition list \<Rightarrow> int sql" where
  "count_students conds c =
    (case prepare [(''students'', Students)] of
       Some e \<Rightarrow> (Inl e, c)
     | None \<Rightarrow>
        (case compile_where conds of
           Inl e \<Rightarrow> (Inl e, c)
         | Inr p \<Rightarrow> (Inr (int (length (filter p (rows (students (store c)))))), c)))"

definition buildSearchConditions :: "SearchOptions \<Rightarrow> condition list" where
  "buildSearchConditions so =
    (if trim (so_query so) \<noteq> [] then [LikeAnyColumn (''%'' @ trim (so_query so) @ ''%'')] else []) @
    (case so_filters so of
       None \<Rightarrow> []
     | Some fs \<Rightarrow>
        map (\<lambda>(field, v). ColumnEquals field v)
          (filter (\<lambda>(field, v). v \<noteq> SqlNull \<and> v \<noteq> SqlText []) fs))"

text \<open>\<^verbatim>\<open>Math.ceil(total / pageSize)\<close> for a count \<open>tot \<ge> 0\<close>: division by zero gives
  \<^verbatim>\<open>Infinity\<close>, or \<^verbatim>\<open>NaN\<close> for \<^verbatim>\<open>0 / 0\<close>.\<close>

definition ceil_div :: "int \<Rightarrow> int \<Rightarrow> jsnumber" where
  "ceil_div tot psize =
    (if psize = 0 then (if tot = 0 then NaN else Infinity) else Finite (- ((- tot) div psize)))"

definition searchStudents :: "SearchStudentsOptions \<Rightarrow> PaginatedResult sql" where
  "searchStudents options =
    sql_catch
      (let whereConditions =
             (if includeInactive options = Some True then [] else [IsActive]) @
             (case searchOptions options of
                None \<Rightarrow> []
              | Some so \<Rightarrow> if so_query so \<noteq> [] then buildSearchConditions so else []);
           ord =
             (case searchOptions options of
                None \<Rightarrow> None
              | Some so \<Rightarrow>
                 (case so_sortBy so of
                    None \<Rightarrow> None
                  | Some field \<Rightarrow>
                     if field = [] then None
                     else Some (field, case so_sortOrder so of None \<Rightarrow> Asc | Some dir \<Rightarrow> dir)))
       in case pagination options of
            Some pg \<Rightarrow>
              (let offset = (page pg - 1) * pageSize pg in
               sql_bind (select_students whereConditions ord (Some (pageSize pg, offset)))
                 (\<lambda>found.
                    sql_bind (count_students whereConditions)
                      (\<lambda>tot. sql_return
                         \<lparr>pr_data = found, pr_total = tot, pr_page = page pg,
                          pr_pageSize = pageSize pg,
                          pr_totalPages = ceil_div tot (pageSize pg)\<rparr>)))
          | None \<Rightarrow>
              sql_bind (select_students whereConditions ord None)
                (\<lambda>found. sql_return
                   \<lparr>pr_data = found, pr_total = int (length found), pr_page = 1,
                    pr_pageSize = int (length found), pr_totalPages = Finite 1\<rparr>))
      (\<lambda>e. sql_throw e)"


section \<open>Vocabulary of the properties\<close>

definition student_exists :: "conn \<Rightarrow> int \<Rightarrow> bool" where
  "student_exists c studentId = (studentId \<in> set (map s_id (rows (students (store c)))))"

definition department_exists :: "conn \<Rightarrow> int \<Rightarrow> bool" where
  "department_exists c departmentId =
    (departmentId \<in> set (map d_id (rows (departments (store c)))))"

text \<open>Some row of \<^verbatim>\<open>student_departments\<close> pairs the student with the department, whatever
  its \<^verbatim>\<open>isActive\<close> and \<^verbatim>\<open>status\<close>.\<close>

definition enrolled :: "conn \<Rightarrow> int \<Rightarrow> int \<Rightarrow> bool" where
  "enrolled c studentId departmentId =
    list_ex (\<lambda>r. sd_studentId r = studentId \<and> sd_departmentId r = departmentId)
      (rows (student_departments (store c)))"

text \<open>The connection after \<^verbatim>\<open>bulkEnroll\<close>'s insert of one enrollment.\<close>

definition enrollment_insert :: "conn \<Rightarrow> int \<Rightarrow> int \<Rightarrow> conn" where
  "enrollment_insert c studentId departmentId =
    (let s = store c; t = student_departments s;
         i = next_rowid (map sd_id (rows t)) (seq t)
     in c\<lparr>store := s\<lparr>student_departments :=
           \<lparr>rows = rows t @ [\<lparr>sd_id = i, sd_studentId = studentId, sd_departmentId = departmentId,
                               sd_status = Some ''active'', sd_isActive = True\<rparr>],
            seq = i\<rparr>\<rparr>\<rparr>)"

text \<open>What one turn of \<^verbatim>\<open>bulkEnroll\<close>'s loop leaves in the result and in the store, when
  the department is there.\<close>

definition enroll_one_result ::
  "conn \<Rightarrow> int \<Rightarrow> int \<Rightarrow> BulkEnrollmentResult \<Rightarrow> BulkEnrollmentResult" where
  "enroll_one_result c departmentId studentId result =
    (if \<not> student_exists c studentId
     then result\<lparr>errors := errors result @ [(studentId, ''Student not found'')]\<rparr>
     else if enrolled c studentId departmentId
     then result\<lparr>errors := errors result @ [(studentId, ''Already enrolled'')]\<rparr>
     else result\<lparr>successCount := successCount result + 1\<rparr>)"

definition enroll_one_conn :: "conn \<Rightarrow> int \<Rightarrow> int \<Rightarrow> conn" where
  "enroll_one_conn c departmentId studentId =
    (if student_exists c studentId \<and> \<not> enrolled c studentId departmentId
     then enrollment_insert c studentId departmentId else c)"

text \<open>No statement other than \<^verbatim>\<open>BEGIN\<close>, \<^verbatim>\<open>COMMIT\<close> and \<^verbatim>\<open>ROLLBACK\<close> touches the open
  transaction or the foreign-key setting: the two connections are in the same session.\<close>

definition same_session :: "conn \<Rightarrow> conn \<Rightarrow> bool" where
  "same_session c c' = (txn c' = txn c \<and> foreign_keys c' = foreign_keys c)"

text \<open>The number of distinct student ids that have an entry in \<^verbatim>\<open>errors\<close>.\<close>

definition distinct_error_ids :: "BulkEnrollmentResult \<Rightarrow> nat" where
  "distinct_error_ids result = length (remdups (map fst (errors result)))"

text \<open>The line total and the bill total in the words of the specification: a missing
  amount is 0, a missing quantity 1, a missing discount 0.\<close>

definition spec_line_total :: "BillItemLine \<Rightarrow> number" where
  "spec_line_total item =
    number_nullish (line_amount item) 0 * number_nullish (line_quantity item) 1
      - number_nullish (line_discount item) 0"

definition spec_bill_total :: "BillItemLine list \<Rightarrow> number" where
  "spec_bill_total lines = sum_list (map spec_line_total lines)"

text \<open>The line total as \<^verbatim>\<open>createBillWithItems\<close> computes it.\<close>

definition line_total :: "BillItemLine \<Rightarrow> number" where
  "line_total item =
    number_or (line_amount item) 0 * number_or (line_quantity item) 1
      - number_or (line_discount item) 0"

text \<open>The stored items of a department, without their ids.\<close>

definition item_fields :: "bill_item_row \<Rightarrow> BillItemFields" where
  "item_fields r =
    \<lparr>bf_name = bi_name r, bf_amount = bi_amount r, bf_description = bi_description r,
     bf_category = bi_category r, bf_isRequired = bi_isRequired r\<rparr>"

definition department_items :: "conn \<Rightarrow> int \<Rightarrow> bill_item_row list" where
  "department_items c departmentId =
    filter (\<lambda>r. bi_departmentId r = departmentId) (rows (bill_items (store c)))"

section \<open>A school to run the operations on\<close>

definition a_student :: "int \<Rightarrow> string \<Rightarrow> string \<Rightarrow> student_row" where
  "a_student i first other =
    \<lparr>s_id = i, s_firstname = first, s_othernames = other, s_phone = ''0200000000'',
     s_address = ''Accra'', s_status = Some ''active'', s_isActive = True\<rparr>"

definition an_item :: "int \<Rightarrow> string \<Rightarrow> number \<Rightarrow> int \<Rightarrow> bill_item_row" where
  "an_item i name amount departmentId =
    \<lparr>bi_id = i, bi_name = name, bi_amount = amount, bi_departmentId = departmentId,
     bi_description = None, bi_category = None, bi_isRequired = Some False,
     bi_isActive = Some True\<rparr>"

definition an_enrollment :: "int \<Rightarrow> int \<Rightarrow> int \<Rightarrow> student_department_row" where
  "an_enrollment i studentId departmentId =
    \<lparr>sd_id = i, sd_studentId = studentId, sd_departmentId = departmentId,
     sd_status = Some ''active'', sd_isActive = True\<rparr>"

text \<open>Department 1 with bill items Tuition (100) and Books (20), students 1 and 2, both
  actively enrolled in it; no bill yet; foreign keys enforced; no transaction open.\<close>

definition school_store :: store where
  "school_store =
    \<lparr>students = \<lparr>rows = [a_student 1 ''Ama'' ''Mensah'', a_student 2 ''Kofi'' ''Boateng''], seq = 2\<rparr>,
     departments =
       \<lparr>rows = [\<lparr>d_id = 1, d_name = ''Science'', d_term = ''Term1'', d_year = ''2025'',
                  d_description = None, d_startDate = None, d_endDate = None,
                  d_isActive = True\<rparr>], seq = 1\<rparr>,
     student_departments = \<lparr>rows = [an_enrollment 1 1 1, an_enrollment 2 2 1], seq = 2\<rparr>,
     bill_items = \<lparr>rows = [an_item 1 ''Tuition'' 100 1, an_item 2 ''Books'' 20 1], seq = 2\<rparr>,
     bills = \<lparr>rows = [], seq = 0\<rparr>,
     bill_item_relations = \<lparr>rows = [], seq = 0\<rparr>,
     payments = \<lparr>rows = [], seq = 0\<rparr>\<rparr>"

definition school :: conn where
  "school = \<lparr>store = school_store, txn = None, foreign_keys = True\<rparr>"

text \<open>The same school before anybody is enrolled.\<close>

definition intake :: conn where
  "intake =
    \<lparr>store = school_store\<lparr>student_departments := \<lparr>rows = [], seq = 0\<rparr>\<rparr>,
     txn = None, foreign_keys = True\<rparr>"

text \<open>A bill for student 1 with one line: Tuition at 100, quantity 0.\<close>

definition zero_quantity_bill :: CreateBillWithItemsPayload where
  "zero_quantity_bill =
    \<lparr>cb_studentId = 1, cb_departmentId = 1, cb_name = ''Term1'', cb_dueDate = None,
     cb_items = [\<lparr>line_billItemId = 1, line_amount = Some 100, line_quantity = Some 0,
                  line_discount = None\<rparr>],
     cb_note = None\<rparr>"

text \<open>A bill for student 1 whose one line names bill item 99, which does not exist.\<close>

definition dangling_item_bill :: CreateBillWithItemsPayload where
  "dangling_item_bill =
    \<lparr>cb_studentId = 1, cb_departmentId = 1, cb_name = ''Term1'', cb_dueDate = None,
     cb_items = [\<lparr>line_billItemId = 99, line_amount = Some 100, line_quantity = Some 1,
                  line_discount = None\<rparr>],
     cb_note = None\<rparr>"

text \<open>Department 1 edited: a new term, and one bill item, Lab at 50, in place of the two.\<close>

definition science_with_lab :: DepartmentUpdate where
  "science_with_lab =
    \<lparr>dep_id = Some 1, dep_name = ''Science'', dep_term = ''Term2'', dep_year = ''2025'',
     dep_description = Some [], dep_startDate = None, dep_endDate = None,
     dep_billItems = Some [\<lparr>bf_name = ''Lab'', bf_amount = 50, bf_description = None,
                            bf_category = None, bf_isRequired = None\<rparr>]\<rparr>"

section \<open>Statements against the schema\<close>

lemma prepare_schema:
  "prepare [(''students'', Students)] = None"
  "prepare [(''departments'', Departments)] = None"
  "prepare [(''student_departments'', StudentDepartments)] = None"
  "prepare [(''bill_items'', BillItems)] = None"
  "prepare [(''bills'', Bills)] = None"
  "prepare [(''bill_item_relations'', BillItemRelations)] = None"
  by (simp_all add: createTablesSQL_def)

lemma prepare_misnamed:
  "prepare [(''students'', Students), (''studentDepartments'', StudentDepartments)] =
     Some (NoSuchTable ''studentDepartments'')"
  "prepare [(''students'', Students), (''student_department'', StudentDepartments)] =
     Some (NoSuchTable ''student_department'')"
  "prepare [(''billItems'', BillItems)] = Some (NoSuchTable ''billItems'')"
  "prepare [(''billItemRelations'', BillItemRelations)] = Some (NoSuchTable ''billItemRelations'')"
  by (simp_all add: createTablesSQL_def)

declare prepare.simps [simp del]
declare prepare_schema [simp] prepare_misnamed [simp]

lemma first_filter_find:
  "(case filter P xs of [] \<Rightarrow> None | r # _ \<Rightarrow> Some r) = find P xs"
  by (induction xs) auto

lemma getFirstAsync_find:
  "prepare refs = None \<Longrightarrow>
   getFirstAsync refs (\<lambda>s. filter (P s) (xs s)) c = (Inr (find (P (store c)) (xs (store c))), c)"
  by (simp add: getFirstAsync_def first_filter_find)

lemma find_student_None:
  "find (\<lambda>r. s_id r = i) (rows (students (store c))) = None \<longleftrightarrow> \<not> student_exists c i"
  by (auto simp: find_None_iff student_exists_def)

lemma find_department_None:
  "find (\<lambda>r. d_id r = d) (rows (departments (store c))) = None \<longleftrightarrow> \<not> department_exists c d"
  by (auto simp: find_None_iff department_exists_def)

lemma find_enrollment_None:
  "find (\<lambda>r. sd_studentId r = i \<and> sd_departmentId r = d) (rows (student_departments (store c))) = None
     \<longleftrightarrow> \<not> enrolled c i d"
  by (auto simp: find_None_iff enrolled_def list_ex_iff)

section \<open>One turn of the enrollment loop\<close>

lemma enroll_one_not_found:
  "\<not> student_exists c studentId \<Longrightarrow>
   enroll_one departmentId studentId result c =
     (Inr (result\<lparr>errors := errors result @ [(studentId, ''Student not found'')]\<rparr>), c)"
  using find_student_None [of studentId c]
  by (simp add: enroll_one_def sql_catch_def sql_bind_def sql_return_def getFirstAsync_find)

lemma enroll_one_already:
  "student_exists c studentId \<Longrightarrow> enrolled c studentId departmentId \<Longrightarrow>
   enroll_one departmentId studentId result c =
     (Inr (result\<lparr>errors := errors result @ [(studentId, ''Already enrolled'')]\<rparr>), c)"
  using find_student_None [of studentId c] find_enrollment_None [of studentId departmentId c]
  by (auto simp: enroll_one_def sql_catch_def sql_bind_def sql_return_def getFirstAsync_find
      split: option.splits)

lemma enroll_one_new:
  "student_exists c studentId \<Longrightarrow> \<not> enrolled c studentId departmentId \<Longrightarrow>
   department_exists c departmentId \<or> \<not> foreign_keys c \<Longrightarrow>
   enroll_one departmentId studentId result c =
     (Inr (result\<lparr>successCount := successCount result + 1\<rparr>),
      enrollment_insert c studentId departmentId)"
  using find_student_None [of studentId c] find_enrollment_None [of studentId departmentId c]
  by (auto simp: enroll_one_def sql_catch_def sql_bind_def sql_return_def getFirstAsync_find
      student_exists_def enrolled_def department_exists_def list_ex_iff
      insert_student_departments_def enrollment_insert_def Let_def split: option.splits)

lemma enroll_one_foreign_key:
  "student_exists c studentId \<Longrightarrow> \<not> enrolled c studentId departmentId \<Longrightarrow>
   \<not> department_exists c departmentId \<Longrightarrow> foreign_keys c \<Longrightarrow>
   enroll_one departmentId studentId result c =
     (Inr (result\<lparr>errors := errors result @ [(studentId, ''FOREIGN KEY constraint failed'')]\<rparr>), c)"
  using find_student_None [of studentId c] find_enrollment_None [of studentId departmentId c]
  by (auto simp: enroll_one_def sql_catch_def sql_bind_def sql_return_def getFirstAsync_find
      student_exists_def enrolled_def department_exists_def list_ex_iff
      insert_student_departments_def Let_def split: option.splits)

lemma enrollment_insert_frame [simp]:
  "txn (enrollment_insert c i d) = txn c"
  "foreign_keys (enrollment_insert c i d) = foreign_keys c"
  "students (store (enrollment_insert c i d)) = students (store c)"
  "departments (store (enrollment_insert c i d)) = departments (store c)"
  by (simp_all add: enrollment_insert_def Let_def)

lemma exists_enrollment_insert [simp]:
  "student_exists (enrollment_insert c i d) j = student_exists c j"
  "department_exists (enrollment_insert c i d) e = department_exists c e"
  by (simp_all add: student_exists_def department_exists_def)

lemma enrolled_enrollment_insert [simp]:
  "enrolled (enrollment_insert c i d) j e \<longleftrightarrow> enrolled c j e \<or> (j = i \<and> e = d)"
  by (auto simp: enrolled_def enrollment_insert_def Let_def list_ex_iff)

lemma enroll_one_eq:
  assumes "department_exists c departmentId"
  shows "enroll_one departmentId studentId result c =
    (Inr (enroll_one_result c departmentId studentId result),
     enroll_one_conn c departmentId studentId)"
  using assms
  by (simp add: enroll_one_result_def enroll_one_conn_def enroll_one_not_found enroll_one_already
      enroll_one_new)

lemma enroll_one_conn_frame [simp]:
  "txn (enroll_one_conn c d i) = txn c"
  "foreign_keys (enroll_one_conn c d i) = foreign_keys c"
  "students (store (enroll_one_conn c d i)) = students (store c)"
  "departments (store (enroll_one_conn c d i)) = departments (store c)"
  "student_exists (enroll_one_conn c d i) j = student_exists c j"
  "department_exists (enroll_one_conn c d i) e = department_exists c e"
  by (simp_all add: enroll_one_conn_def)

lemma enrolled_enroll_one_conn:
  "enrolled (enroll_one_conn c d i) j e \<longleftrightarrow>
     enrolled c j e \<or> (j = i \<and> e = d \<and> student_exists c i)"
  by (auto simp: enroll_one_conn_def)

lemma enroll_one_result_count:
  "successCount (enroll_one_result c d i r) + length (errors (enroll_one_result c d i r)) =
   Suc (successCount r + length (errors r))"
  by (simp add: enroll_one_result_def)

section \<open>The enrollment loop\<close>

lemma enroll_loop_runs:
  assumes "department_exists c d"
  shows "\<exists>r' c'. enroll_loop d ids r c = (Inr r', c') \<and>
           txn c' = txn c \<and> foreign_keys c' = foreign_keys c \<and>
           students (store c') = students (store c) \<and>
           departments (store c') = departments (store c) \<and>
           (\<forall>j e. enrolled c' j e \<longleftrightarrow> enrolled c j e \<or> (e = d \<and> j \<in> set ids \<and> student_exists c j)) \<and>
           successCount r' + length (errors r') = successCount r + length (errors r) + length ids"
  using assms
proof (induction ids arbitrary: r c)
  case Nil
  then show ?case by (simp add: sql_return_def)
next
  case (Cons i ids)
  let ?c1 = "enroll_one_conn c d i"
  let ?r1 = "enroll_one_result c d i r"
  have d1: "department_exists ?c1 d" using Cons.prems by simp
  from Cons.IH [OF d1, of ?r1] obtain r' c' where
    run: "enroll_loop d ids ?r1 ?c1 = (Inr r', c')" and
    frame: "txn c' = txn ?c1" "foreign_keys c' = foreign_keys ?c1"
      "students (store c') = students (store ?c1)"
      "departments (store c') = departments (store ?c1)" and
    en: "\<forall>j e. enrolled c' j e \<longleftrightarrow>
           enrolled ?c1 j e \<or> (e = d \<and> j \<in> set ids \<and> student_exists ?c1 j)" and
    cnt: "successCount r' + length (errors r') =
           successCount ?r1 + length (errors ?r1) + length ids"
    by blast
  have "enroll_loop d (i # ids) r c = (Inr r', c')"
    using run Cons.prems by (simp add: sql_bind_def enroll_one_eq)
  moreover have "\<forall>j e. enrolled c' j e \<longleftrightarrow>
      enrolled c j e \<or> (e = d \<and> j \<in> set (i # ids) \<and> student_exists c j)"
    using en by (auto simp: enrolled_enroll_one_conn)
  moreover have "successCount r' + length (errors r') =
      successCount r + length (errors r) + length (i # ids)"
    using cnt by (simp add: enroll_one_result_count)
  ultimately show ?case using frame by simp
qed

text \<open>A list of ids each of which is unknown or already enrolled leaves the store as it is.\<close>

lemma enroll_loop_settled:
  assumes "\<forall>i \<in> set ids. student_exists c i \<longrightarrow> enrolled c i d"
  shows "enroll_loop d ids r c =
    (Inr (r\<lparr>errors := errors r @
            map (\<lambda>i. (i, if student_exists c i then ''Already enrolled'' else ''Student not found''))
              ids\<rparr>), c)"
  using assms
proof (induction ids arbitrary: r)
  case Nil
  then show ?case by (simp add: sql_return_def)
next
  case (Cons i ids)
  let ?r1 = "r\<lparr>errors := errors r @
         [(i, if student_exists c i then ''Already enrolled'' else ''Student not found'')]\<rparr>"
  have one: "enroll_one d i r c = (Inr ?r1, c)"
    using Cons.prems by (simp add: enroll_one_not_found enroll_one_already)
  show ?case using Cons.IH [of ?r1] Cons.prems
    by (simp add: sql_bind_def one)
qed

section \<open>\<^verbatim>\<open>bulkEnroll\<close> as a whole\<close>

lemma bulkEnroll_in_transaction:
  assumes "txn c = Some s"
  shows "bulkEnroll d ids c = (Inl TransactionWithinTransaction, c)"
  using assms by (simp add: bulkEnroll_def sql_bind_def exec_BEGIN_def)

lemma bulkEnroll_no_department:
  assumes "txn c = None" "\<not> department_exists c d"
  shows "bulkEnroll d ids c =
    (Inl (JsError (''Department with ID '' @ show_int d @ '' not found'')), c)"
  using assms find_department_None [of d c]
  by (simp add: bulkEnroll_def sql_bind_def sql_catch_def sql_throw_def exec_BEGIN_def
      exec_ROLLBACK_def getFirstAsync_find)

lemma bulkEnroll_department:
  assumes "txn c = None" "department_exists c d"
    and "enroll_loop d ids \<lparr>successCount = 0, errors = []\<rparr> (c\<lparr>txn := Some (store c)\<rparr>) = (Inr r, c')"
    and "txn c' = Some (store c)"
  shows "bulkEnroll d ids c = (Inr r, c'\<lparr>txn := None\<rparr>)"
  using assms find_department_None [of d "c\<lparr>txn := Some (store c)\<rparr>"]
  by (auto simp: bulkEnroll_def sql_bind_def sql_catch_def sql_throw_def exec_BEGIN_def
      exec_COMMIT_def sql_return_def getFirstAsync_find department_exists_def split: option.splits)

text \<open>From a connection with no transaction open, \<^verbatim>\<open>bulkEnroll\<close> on an existing department
  runs its loop inside a transaction and commits.\<close>

lemma bulkEnroll_commits:
  assumes "txn c = None" "department_exists c d"
  shows "\<exists>r c'. bulkEnroll d ids c = (Inr r, c') \<and> txn c' = None \<and>
           foreign_keys c' = foreign_keys c \<and>
           students (store c') = students (store c) \<and>
           departments (store c') = departments (store c) \<and>
           (\<forall>j e. enrolled c' j e \<longleftrightarrow> enrolled c j e \<or> (e = d \<and> j \<in> set ids \<and> student_exists c j)) \<and>
           successCount r + length (errors r) = length ids"
proof -
  let ?c0 = "c\<lparr>txn := Some (store c)\<rparr>"
  have d0: "department_exists ?c0 d" using assms(2) by (simp add: department_exists_def)
  from enroll_loop_runs [OF d0, of ids "\<lparr>successCount = 0, errors = []\<rparr>"]
  obtain r c' where
    run: "enroll_loop d ids \<lparr>successCount = 0, errors = []\<rparr> ?c0 = (Inr r, c')" and
    frame: "txn c' = txn ?c0" "foreign_keys c' = foreign_keys ?c0"
      "students (store c') = students (store ?c0)"
      "departments (store c') = departments (store ?c0)" and
    en: "\<forall>j e. enrolled c' j e \<longleftrightarrow>
           enrolled ?c0 j e \<or> (e = d \<and> j \<in> set ids \<and> student_exists ?c0 j)" and
    cnt: "successCount r + length (errors r) = length ids"
    by auto
  have "bulkEnroll d ids c = (Inr r, c'\<lparr>txn := None\<rparr>)"
    using bulkEnroll_department [OF assms run] frame(1) by simp
  moreover have "\<forall>j e. enrolled (c'\<lparr>txn := None\<rparr>) j e \<longleftrightarrow>
      enrolled c j e \<or> (e = d \<and> j \<in> set ids \<and> student_exists c j)"
    using en by (simp add: enrolled_def student_exists_def)
  ultimately show ?thesis using frame cnt by simp
qed


lemma conn_txn_None: "txn c = None \<Longrightarrow> c\<lparr>txn := None\<rparr> = c"
  by (cases c) simp

lemma bulkEnroll_result_cases:
  assumes "bulkEnroll d ids c = (Inr r, c')"
  shows "txn c = None \<and> department_exists c d"
proof -
  have "txn c = None"
    using assms bulkEnroll_in_transaction [of c _ d ids] by (cases "txn c") auto
  moreover have "department_exists c d"
    using assms bulkEnroll_no_department [OF \<open>txn c = None\<close>, of d ids] by auto
  ultimately show ?thesis by simp
qed

text \<open>
  C4, as amended.  Whenever \<^verbatim>\<open>bulkEnroll\<close> returns a result, \<^verbatim>\<open>successCount\<close> plus the number
  of entries of \<^verbatim>\<open>errors\<close> is the length of \<^verbatim>\<open>studentIds\<close>: each input id, repeated or not,
  yields exactly one disposition.
\<close>

theorem bulkEnroll_dispositions:
  assumes "bulkEnroll departmentId studentIds c = (Inr result, c')"
  shows "successCount result + length (errors result) = length studentIds"
proof -
  from bulkEnroll_result_cases [OF assms]
  have "txn c = None" and "department_exists c departmentId" by simp_all
  from bulkEnroll_commits [OF this, of studentIds] assms show ?thesis by auto
qed

lemma bulkEnroll_school_unknown_twice:
  "bulkEnroll 1 [7, 7] school =
     (Inr \<lparr>successCount = 0, errors = [(7, ''Student not found''), (7, ''Student not found'')]\<rparr>,
      school)"
  by code_simp

theorem bulkEnroll_dispositions_witness:
  "bulkEnroll 1 [7, 7] school =
     (Inr \<lparr>successCount = 0, errors = [(7, ''Student not found''), (7, ''Student not found'')]\<rparr>,
      school) \<and>
   successCount \<lparr>successCount = 0, errors = [(7, ''Student not found''), (7, ''Student not found'')]\<rparr>
     + length (errors \<lparr>successCount = 0,
                       errors = [(7::int, ''Student not found''), (7, ''Student not found'')]\<rparr>)
     = length [7, 7 :: int]"
  using bulkEnroll_dispositions [OF bulkEnroll_school_unknown_twice] bulkEnroll_school_unknown_twice
  by simp

text \<open>
  C4 as stated fails: enrolling the unknown id 7 twice gives no success and two error
  entries for one distinct id, so the count of the claim is 1 for a list of length 2.
\<close>

theorem bulkEnroll_distinct_ids_counterexample:
  "bulkEnroll 1 [7, 7] school =
     (Inr \<lparr>successCount = 0, errors = [(7, ''Student not found''), (7, ''Student not found'')]\<rparr>,
      school) \<and>
   successCount \<lparr>successCount = 0, errors = [(7, ''Student not found''), (7, ''Student not found'')]\<rparr>
     + distinct_error_ids \<lparr>successCount = 0,
                            errors = [(7, ''Student not found''), (7, ''Student not found'')]\<rparr>
     \<noteq> length [7, 7 :: int]"
  by (simp add: bulkEnroll_school_unknown_twice distinct_error_ids_def)


text \<open>
  C5, as amended.  When a call of \<^verbatim>\<open>bulkEnroll\<close> has returned a result, the same call made
  again returns \<^verbatim>\<open>successCount = 0\<close> and one error entry for every id of \<^verbatim>\<open>studentIds\<close>, in
  order: "Already enrolled" for an id that names a student, "Student not found" for an id
  that names none; the second call changes nothing in the store.
\<close>

theorem bulkEnroll_twice:
  assumes "bulkEnroll departmentId studentIds c = (Inr result, c')"
  shows "bulkEnroll departmentId studentIds c' =
    (Inr \<lparr>successCount = 0,
          errors = map (\<lambda>i. (i, if student_exists c i then ''Already enrolled''
                                 else ''Student not found'')) studentIds\<rparr>, c')"
proof -
  from bulkEnroll_result_cases [OF assms]
  have t: "txn c = None" and d: "department_exists c departmentId" by simp_all
  from bulkEnroll_commits [OF t d, of studentIds] assms
  have t': "txn c' = None"
    and st: "students (store c') = students (store c)"
    and dp: "departments (store c') = departments (store c)"
    and en: "\<forall>j e. enrolled c' j e \<longleftrightarrow>
               enrolled c j e \<or> (e = departmentId \<and> j \<in> set studentIds \<and> student_exists c j)"
    by auto
  let ?c0 = "c'\<lparr>txn := Some (store c')\<rparr>"
  have ex: "student_exists ?c0 i = student_exists c i" for i
    using st by (simp add: student_exists_def)
  have d': "department_exists c' departmentId"
    using d dp by (simp add: department_exists_def)
  have settled: "\<forall>i \<in> set studentIds. student_exists ?c0 i \<longrightarrow> enrolled ?c0 i departmentId"
    using en ex by (simp add: enrolled_def)
  have loop: "enroll_loop departmentId studentIds \<lparr>successCount = 0, errors = []\<rparr> ?c0 =
      (Inr \<lparr>successCount = 0,
            errors = map (\<lambda>i. (i, if student_exists c i then ''Already enrolled''
                                   else ''Student not found'')) studentIds\<rparr>, ?c0)"
    using enroll_loop_settled [OF settled, of "\<lparr>successCount = 0, errors = []\<rparr>"]
    by (simp add: ex)
  have "bulkEnroll departmentId studentIds c' =
      (Inr \<lparr>successCount = 0,
            errors = map (\<lambda>i. (i, if student_exists c i then ''Already enrolled''
                                   else ''Student not found'')) studentIds\<rparr>, ?c0\<lparr>txn := None\<rparr>)"
    by (rule bulkEnroll_department [OF t' d' loop]) simp
  then show ?thesis using conn_txn_None [OF t'] by simp
qed

text \<open>The school before anybody is enrolled.\<close>

lemma bulkEnroll_intake:
  "bulkEnroll 1 [1, 7, 2] intake =
     (Inr \<lparr>successCount = 2, errors = [(7, ''Student not found'')]\<rparr>, school)"
  by code_simp

theorem bulkEnroll_twice_witness:
  "bulkEnroll 1 [1, 7, 2] intake =
     (Inr \<lparr>successCount = 2, errors = [(7, ''Student not found'')]\<rparr>, school) \<and>
   bulkEnroll 1 [1, 7, 2] school =
     (Inr \<lparr>successCount = 0,
           errors = [(1, ''Already enrolled''), (7, ''Student not found''),
                     (2, ''Already enrolled'')]\<rparr>, school)"
proof -
  have "student_exists intake 1" "\<not> student_exists intake 7" "student_exists intake 2"
    by (simp_all add: student_exists_def intake_def school_store_def a_student_def)
  then show ?thesis
    using bulkEnroll_twice [OF bulkEnroll_intake] bulkEnroll_intake by simp
qed

text \<open>
  C5 as stated fails: for the unknown id 7 the second call reports "Student not found",
  as the first did, and not "Already enrolled".
\<close>

theorem bulkEnroll_twice_counterexample:
  "snd (bulkEnroll 1 [7] school) = school \<and>
   fst (bulkEnroll 1 [7] (snd (bulkEnroll 1 [7] school))) =
     Inr \<lparr>successCount = 0, errors = [(7, ''Student not found'')]\<rparr>"
  by code_simp

text \<open>
  C6.  From a connection with no transaction open, \<^verbatim>\<open>bulkEnroll\<close> throws exactly when the
  department does not exist, and then the store is as it was (rolled back) and the error
  is the "not found" error.  When the department exists it returns a result object: the
  loop runs over every id, whatever the per-student outcomes, and the transaction is
  committed (the writes of the loop stay, no transaction remains open).
\<close>

theorem bulkEnroll_throws_iff_no_department:
  assumes "txn c = None"
  shows "if department_exists c departmentId
         then \<exists>result c1.
                enroll_loop departmentId studentIds \<lparr>successCount = 0, errors = []\<rparr>
                  (c\<lparr>txn := Some (store c)\<rparr>) = (Inr result, c1) \<and>
                bulkEnroll departmentId studentIds c = (Inr result, c1\<lparr>txn := None\<rparr>) \<and>
                successCount result + length (errors result) = length studentIds
         else bulkEnroll departmentId studentIds c =
                (Inl (JsError (''Department with ID '' @ show_int departmentId @ '' not found'')), c)"
proof (cases "department_exists c departmentId")
  case True
  let ?c0 = "c\<lparr>txn := Some (store c)\<rparr>"
  have d0: "department_exists ?c0 departmentId" using True by (simp add: department_exists_def)
  from enroll_loop_runs [OF d0, of studentIds "\<lparr>successCount = 0, errors = []\<rparr>"]
  obtain result c1 where
    run: "enroll_loop departmentId studentIds \<lparr>successCount = 0, errors = []\<rparr> ?c0 = (Inr result, c1)"
    and t1: "txn c1 = txn ?c0"
    and cnt: "successCount result + length (errors result) = length studentIds"
    by auto
  have "bulkEnroll departmentId studentIds c = (Inr result, c1\<lparr>txn := None\<rparr>)"
    using bulkEnroll_department [OF assms True run] t1 by simp
  with run cnt True show ?thesis by auto
next
  case False
  then show ?thesis using bulkEnroll_no_department [OF assms False] by simp
qed

theorem bulkEnroll_throws_iff_no_department_witness:
  "txn school = None \<and> \<not> department_exists school 5 \<and>
   bulkEnroll 5 [1, 2] school = (Inl (JsError ''Department with ID 5 not found''), school) \<and>
   department_exists intake 1 \<and>
   bulkEnroll 1 [1, 7, 2] intake =
     (Inr \<lparr>successCount = 2, errors = [(7, ''Student not found'')]\<rparr>, school)"
proof -
  have t: "txn school = None" by (simp add: school_def)
  have d: "\<not> department_exists school 5" "department_exists intake 1"
    by (simp_all add: department_exists_def school_def intake_def school_store_def)
  have s: "show_int 5 = ''5''" by code_simp
  show ?thesis
    using bulkEnroll_throws_iff_no_department [OF t, of 5 "[1, 2]"] t d s bulkEnroll_intake
    by simp
qed


section \<open>Withdrawal and re-enrollment\<close>

lemma unenrollStudent_eq:
  "unenrollStudent studentId departmentId c =
    (Inr (enrolled c studentId departmentId),
     c\<lparr>store := (store c)\<lparr>student_departments :=
         (student_departments (store c))\<lparr>rows :=
            map (\<lambda>r. if sd_studentId r = studentId \<and> sd_departmentId r = departmentId
                      then r\<lparr>sd_isActive := False, sd_status := Some ''withdrawn''\<rparr> else r)
              (rows (student_departments (store c)))\<rparr>\<rparr>\<rparr>)"
  by (auto simp: unenrollStudent_def update_student_departments_withdrawn_def sql_catch_def
      sql_bind_def sql_return_def Let_def enrolled_def list_ex_iff filter_empty_conv)

lemma list_ex_map_same:
  assumes "\<And>r. P (f r) = P r"
  shows "list_ex P (map f xs) = list_ex P xs"
  by (induction xs) (simp_all add: assms)

lemma list_all_filter_map_if:
  assumes "\<And>r. P r \<Longrightarrow> Q (g r)" and "\<And>r. P (g r) = P r"
  shows "list_all Q (filter P (map (\<lambda>r. if P r then g r else r) xs))"
  by (induction xs) (simp_all add: assms)

lemma bulkEnroll_already_enrolled:
  assumes "txn c = None" "department_exists c d" "student_exists c i" "enrolled c i d"
  shows "bulkEnroll d [i] c = (Inr \<lparr>successCount = 0, errors = [(i, ''Already enrolled'')]\<rparr>, c)"
proof -
  let ?c0 = "c\<lparr>txn := Some (store c)\<rparr>"
  have s: "student_exists ?c0 i" "enrolled ?c0 i d"
    using assms by (simp_all add: student_exists_def enrolled_def)
  have "enroll_loop d [i] \<lparr>successCount = 0, errors = []\<rparr> ?c0 =
      (Inr \<lparr>successCount = 0, errors = [(i, ''Already enrolled'')]\<rparr>, ?c0)"
    using enroll_one_already [OF s] by (simp add: sql_bind_def sql_return_def)
  from bulkEnroll_department [OF assms(1,2) this]
  show ?thesis using conn_txn_None [OF assms(1)] by simp
qed

text \<open>
  C9.  The already-enrolled check of \<^verbatim>\<open>bulkEnroll\<close> looks for any row of
  \<^verbatim>\<open>student_departments\<close> with the student and the department and reads neither \<^verbatim>\<open>isActive\<close>
  nor \<^verbatim>\<open>status\<close>.  So once \<^verbatim>\<open>unenrollStudent\<close> has withdrawn a student (it reported a changed
  row), \<^verbatim>\<open>bulkEnroll\<close> of that student into that department reports "Already enrolled" and
  leaves the store as the withdrawal left it: no row is added, and every row of the pair
  still has \<^verbatim>\<open>isActive = 0\<close> and \<^verbatim>\<open>status = 'withdrawn'\<close>.
\<close>

theorem withdrawn_student_is_already_enrolled:
  assumes "txn c = None"
    and "student_exists c studentId"
    and "department_exists c departmentId"
    and "unenrollStudent studentId departmentId c = (Inr True, c1)"
  shows "bulkEnroll departmentId [studentId] c1 =
           (Inr \<lparr>successCount = 0, errors = [(studentId, ''Already enrolled'')]\<rparr>, c1) \<and>
         length (rows (student_departments (store c1))) =
           length (rows (student_departments (store c))) \<and>
         list_all (\<lambda>r. \<not> sd_isActive r \<and> sd_status r = Some ''withdrawn'')
           (filter (\<lambda>r. sd_studentId r = studentId \<and> sd_departmentId r = departmentId)
              (rows (student_departments (store c1))))"
proof -
  let ?hit = "\<lambda>r. sd_studentId r = studentId \<and> sd_departmentId r = departmentId"
  let ?rows1 = "map (\<lambda>r. if ?hit r then r\<lparr>sd_isActive := False, sd_status := Some ''withdrawn''\<rparr>
                          else r) (rows (student_departments (store c)))"
  from assms(4) have en: "enrolled c studentId departmentId"
    and c1: "c1 = c\<lparr>store := (store c)\<lparr>student_departments :=
                 (student_departments (store c))\<lparr>rows := ?rows1\<rparr>\<rparr>\<rparr>"
    by (simp_all add: unenrollStudent_eq)
  have t1: "txn c1 = None" using assms(1) c1 by simp
  have d1: "department_exists c1 departmentId"
    using assms(3) c1 by (simp add: department_exists_def)
  have s1: "student_exists c1 studentId"
    using assms(2) c1 by (simp add: student_exists_def)
  have "list_ex ?hit ?rows1 = list_ex ?hit (rows (student_departments (store c)))"
    by (rule list_ex_map_same) simp
  then have e1: "enrolled c1 studentId departmentId"
    using en by (simp add: c1 enrolled_def)
  have kept: "length (rows (student_departments (store c1))) =
      length (rows (student_departments (store c)))"
    by (simp add: c1)
  have "list_all (\<lambda>r. \<not> sd_isActive r \<and> sd_status r = Some ''withdrawn'') (filter ?hit ?rows1)"
    by (rule list_all_filter_map_if) simp_all
  then have withdrawn: "list_all (\<lambda>r. \<not> sd_isActive r \<and> sd_status r = Some ''withdrawn'')
      (filter ?hit (rows (student_departments (store c1))))"
    by (simp add: c1)
  from bulkEnroll_already_enrolled [OF t1 d1 s1 e1] kept withdrawn
  show ?thesis by blast
qed

lemma unenrollStudent_school:
  "unenrollStudent 1 1 school =
    (Inr True,
     school\<lparr>store := school_store\<lparr>student_departments :=
        \<lparr>rows = [\<lparr>sd_id = 1, sd_studentId = 1, sd_departmentId = 1,
                   sd_status = Some ''withdrawn'', sd_isActive = False\<rparr>,
                  an_enrollment 2 2 1], seq = 2\<rparr>\<rparr>\<rparr>)"
  by code_simp

theorem withdrawn_student_is_already_enrolled_witness:
  "txn school = None \<and> student_exists school 1 \<and> department_exists school 1 \<and>
   bulkEnroll 1 [1]
     (school\<lparr>store := school_store\<lparr>student_departments :=
        \<lparr>rows = [\<lparr>sd_id = 1, sd_studentId = 1, sd_departmentId = 1,
                   sd_status = Some ''withdrawn'', sd_isActive = False\<rparr>,
                  an_enrollment 2 2 1], seq = 2\<rparr>\<rparr>\<rparr>) =
     (Inr \<lparr>successCount = 0, errors = [(1, ''Already enrolled'')]\<rparr>,
      school\<lparr>store := school_store\<lparr>student_departments :=
        \<lparr>rows = [\<lparr>sd_id = 1, sd_studentId = 1, sd_departmentId = 1,
                   sd_status = Some ''withdrawn'', sd_isActive = False\<rparr>,
                  an_enrollment 2 2 1], seq = 2\<rparr>\<rparr>\<rparr>)"
proof -
  have h: "txn school = None" "student_exists school 1" "department_exists school 1"
    by (simp_all add: school_def school_store_def student_exists_def department_exists_def
        a_student_def)
  from withdrawn_student_is_already_enrolled [OF h unenrollStudent_school] h
  show ?thesis by simp
qed

section \<open>The students of a department\<close>

text \<open>
  C10.  On a store with the tables of \<^verbatim>\<open>createTablesSQL\<close>, \<^verbatim>\<open>getStudentsInDepartmentById\<close>
  throws for every department id and every content of the tables: its query joins a table
  named \<^verbatim>\<open>student_department\<close>, and the schema creates none of that name (the junction table
  is \<^verbatim>\<open>student_departments\<close>).  It never returns a list of students.
\<close>

theorem getStudentsInDepartmentById_throws:
  "getStudentsInDepartmentById departmentId c = (Inl (NoSuchTable ''student_department''), c)"
  by (simp add: getStudentsInDepartmentById_def getAllAsync_def sql_catch_def sql_throw_def)

theorem getStudentsInDepartmentById_throws_witness:
  "map_of createTablesSQL ''student_department'' = None \<and>
   map_of createTablesSQL ''student_departments'' = Some StudentDepartments \<and>
   getStudentsInDepartmentById 1 school = (Inl (NoSuchTable ''student_department''), school)"
  using getStudentsInDepartmentById_throws [of 1 school]
  by (simp add: createTablesSQL_def)


section \<open>Statements keep the session\<close>

lemma same_session_refl [simp]: "same_session c c"
  by (simp add: same_session_def)

lemma same_session_trans: "same_session a b \<Longrightarrow> same_session b c \<Longrightarrow> same_session a c"
  by (simp add: same_session_def)

lemma insert_bills_session:
  "insert_bills name bname studentId departmentId tot dueDate status note c = (r, c') \<Longrightarrow>
   same_session c c'"
  by (auto simp: insert_bills_def same_session_def Let_def split: option.splits if_splits)

lemma insert_bill_item_relations_session:
  "insert_bill_item_relations name billId billItemId amount quantity discount c = (r, c') \<Longrightarrow>
   same_session c c' \<and> bills (store c') = bills (store c)"
  by (auto simp: insert_bill_item_relations_def same_session_def Let_def
      split: option.splits if_splits)

lemma update_bills_totalAmount_session:
  "update_bills_totalAmount name tot billId c = (r, c') \<Longrightarrow> same_session c c'"
  by (auto simp: update_bills_totalAmount_def same_session_def Let_def split: option.splits)

lemma rollback_restores:
  assumes "txn c = None" and "same_session (c\<lparr>txn := Some (store c)\<rparr>) c2"
  shows "exec_ROLLBACK c2 = (Inr (), c)"
  using assms by (cases c; cases c2) (simp add: exec_ROLLBACK_def same_session_def)

section \<open>\<^verbatim>\<open>createBillWithItems\<close>\<close>

lemma add_lines_run:
  "add_lines billId lines tot c = (r, c') \<Longrightarrow>
   same_session c c' \<and> bills (store c') = bills (store c) \<and>
   (\<forall>t. r = Inr t \<longrightarrow> t = tot + sum_list (map line_total lines))"
proof (induction lines arbitrary: tot c)
  case Nil
  then show ?case by (auto simp: sql_return_def)
next
  case (Cons item lines)
  let ?ins = "insert_bill_item_relations ''bill_item_relations'' billId (line_billItemId item)
      (number_or (line_amount item) 0) (number_or (line_quantity item) 1)
      (number_or (line_discount item) 0)"
  obtain r1 c1 where ins: "?ins c = (r1, c1)" by (cases "?ins c")
  note s1 = insert_bill_item_relations_session [OF ins]
  show ?case
  proof (cases r1)
    case (Inl e)
    with Cons.prems ins s1 show ?thesis by (auto simp: sql_bind_def Let_def)
  next
    case (Inr i)
    with Cons.prems ins
    have rest: "add_lines billId lines (tot + line_total item) c1 = (r, c')"
      by (simp add: sql_bind_def Let_def line_total_def)
    from Cons.IH [OF rest] s1 show ?thesis
      by (auto simp: same_session_def add.assoc)
  qed
qed

text \<open>The body of the \<^verbatim>\<open>try\<close> block, from \<^verbatim>\<open>BEGIN\<close> to \<^verbatim>\<open>COMMIT\<close>.\<close>

lemma createBillWithItems_unfold:
  "createBillWithItems bill =
    sql_catch
      (sql_bind exec_BEGIN (\<lambda>_.
        sql_bind
          (insert_bills ''bills'' (cb_name bill) (cb_studentId bill) (cb_departmentId bill) 0
             (string_or_null (cb_dueDate bill)) (Some ''pending'') (string_or_null (cb_note bill)))
          (\<lambda>billId.
             sql_bind (add_lines billId (cb_items bill) 0)
               (\<lambda>tot.
                  sql_bind (update_bills_totalAmount ''bills'' tot billId)
                    (\<lambda>_. sql_bind exec_COMMIT
                       (\<lambda>_. sql_return
                          \<lparr>bill_id = billId, bill_name = cb_name bill,
                           bill_studentId = cb_studentId bill,
                           bill_departmentId = cb_departmentId bill,
                           bill_totalAmount = tot, bill_dueDate = cb_dueDate bill,
                           bill_note = cb_note bill\<rparr>))))))
      (\<lambda>e. sql_bind exec_ROLLBACK (\<lambda>_. sql_throw e))"
  by (simp add: createBillWithItems_def)

lemma createBillWithItems_in_transaction:
  assumes "txn c = Some s"
  shows "createBillWithItems bill c = (Inl TransactionWithinTransaction, c\<lparr>store := s, txn := None\<rparr>)"
  using assms
  by (simp add: createBillWithItems_def sql_catch_def sql_bind_def sql_throw_def
      exec_BEGIN_def exec_ROLLBACK_def)

lemma createBillWithItems_steps:
  assumes t: "txn c = None"
  shows "\<exists>r1 c1. insert_bills ''bills'' (cb_name bill) (cb_studentId bill) (cb_departmentId bill) 0
             (string_or_null (cb_dueDate bill)) (Some ''pending'') (string_or_null (cb_note bill))
             (c\<lparr>txn := Some (store c)\<rparr>) = (r1, c1) \<and>
          (case r1 of
             Inl e \<Rightarrow> createBillWithItems bill c = (Inl e, c)
           | Inr billId \<Rightarrow>
              (\<exists>r2 c2. add_lines billId (cb_items bill) 0 c1 = (r2, c2) \<and>
                 (case r2 of
                    Inl e \<Rightarrow> createBillWithItems bill c = (Inl e, c)
                  | Inr tot \<Rightarrow>
                     tot = sum_list (map line_total (cb_items bill)) \<and>
                     createBillWithItems bill c =
                       (Inr \<lparr>bill_id = billId, bill_name = cb_name bill,
                             bill_studentId = cb_studentId bill,
                             bill_departmentId = cb_departmentId bill,
                             bill_totalAmount = tot, bill_dueDate = cb_dueDate bill,
                             bill_note = cb_note bill\<rparr>,
                        (snd (update_bills_totalAmount ''bills'' tot billId c2))\<lparr>txn := None\<rparr>))))"
proof -
  let ?c0 = "c\<lparr>txn := Some (store c)\<rparr>"
  let ?ins = "insert_bills ''bills'' (cb_name bill) (cb_studentId bill) (cb_departmentId bill) 0
             (string_or_null (cb_dueDate bill)) (Some ''pending'') (string_or_null (cb_note bill))"
  obtain r1 c1 where ins: "?ins ?c0 = (r1, c1)" by (cases "?ins ?c0")
  note s1 = insert_bills_session [OF ins]
  have bg: "exec_BEGIN c = (Inr (), ?c0)" using t by (simp add: exec_BEGIN_def)
  show ?thesis
  proof (cases r1)
    case (Inl e)
    have "createBillWithItems bill c = (Inl e, c)"
      using bg ins Inl rollback_restores [OF t s1]
      by (simp add: createBillWithItems_unfold sql_catch_def sql_bind_def sql_throw_def)
    with ins Inl show ?thesis by simp
  next
    case (Inr billId)
    obtain r2 c2 where lines: "add_lines billId (cb_items bill) 0 c1 = (r2, c2)"
      by (cases "add_lines billId (cb_items bill) 0 c1")
    from add_lines_run [OF lines]
    have s2: "same_session c1 c2"
      and tot: "\<forall>t. r2 = Inr t \<longrightarrow> t = sum_list (map line_total (cb_items bill))"
      by simp_all
    have s02: "same_session ?c0 c2" using s1 s2 by (rule same_session_trans)
    show ?thesis
    proof (cases r2)
      case (Inl e)
      have "createBillWithItems bill c = (Inl e, c)"
        using bg ins Inr lines Inl rollback_restores [OF t s02]
        by (simp add: createBillWithItems_unfold sql_catch_def sql_bind_def sql_throw_def)
      with ins Inr lines Inl show ?thesis by simp
    next
      case r2: (Inr tt)
      obtain n c3 where upd: "update_bills_totalAmount ''bills'' tt billId c2 = (Inr n, c3)"
        by (simp add: update_bills_totalAmount_def Let_def)
      from update_bills_totalAmount_session [OF upd] s02
      have "txn c3 = Some (store c)" by (simp add: same_session_def)
      then have "exec_COMMIT c3 = (Inr (), c3\<lparr>txn := None\<rparr>)"
        by (simp add: exec_COMMIT_def)
      then have "createBillWithItems bill c =
          (Inr \<lparr>bill_id = billId, bill_name = cb_name bill,
                bill_studentId = cb_studentId bill,
                bill_departmentId = cb_departmentId bill,
                bill_totalAmount = tt, bill_dueDate = cb_dueDate bill,
                bill_note = cb_note bill\<rparr>, c3\<lparr>txn := None\<rparr>)"
        using bg ins Inr lines r2 upd
        by (simp add: createBillWithItems_unfold sql_catch_def sql_bind_def sql_return_def)
      with ins Inr lines r2 upd tot show ?thesis by simp
    qed
  qed
qed


lemma insert_bills_row:
  assumes "insert_bills name bname studentId departmentId tot dueDate status note c = (Inr i, c')"
  shows "list_ex (\<lambda>row. b_id row = i) (rows (bills (store c')))"
  using assms
  by (auto simp: insert_bills_def Let_def split: option.splits if_splits)

lemma update_bills_totalAmount_row:
  assumes "list_ex (\<lambda>row. b_id row = i) (rows (bills (store c)))"
  shows "list_ex (\<lambda>row. b_id row = i \<and> b_totalAmount row = tot)
           (rows (bills (store (snd (update_bills_totalAmount ''bills'' tot i c)))))"
proof -
  have "list_ex (\<lambda>row. b_id row = i) xs \<Longrightarrow>
        list_ex (\<lambda>row. b_id row = i \<and> b_totalAmount row = tot)
          (map (\<lambda>r. if b_id r = i then r\<lparr>b_totalAmount := tot\<rparr> else r) xs)" for xs
    by (induction xs) auto
  then show ?thesis using assms
    by (simp add: update_bills_totalAmount_def Let_def)
qed

text \<open>What \<^verbatim>\<open>createBillWithItems\<close> computes when it succeeds: the returned total, which is also
  the total of the persisted row, is the sum of the line totals with \<^verbatim>\<open>||\<close> defaults, so an
  amount, quantity or discount of 0 is treated as a missing one.\<close>

lemma createBillWithItems_total:
  assumes "createBillWithItems bill c = (Inr b, c')"
  shows "bill_totalAmount b = sum_list (map line_total (cb_items bill)) \<and>
         list_ex (\<lambda>row. b_id row = bill_id b \<and> b_totalAmount row = bill_totalAmount b)
           (rows (bills (store c')))"
proof -
  have t: "txn c = None"
    using assms createBillWithItems_in_transaction [of c _ bill] by (cases "txn c") auto
  from createBillWithItems_steps [OF t, of bill] obtain r1 c1 where
    ins: "insert_bills ''bills'' (cb_name bill) (cb_studentId bill) (cb_departmentId bill) 0
             (string_or_null (cb_dueDate bill)) (Some ''pending'') (string_or_null (cb_note bill))
             (c\<lparr>txn := Some (store c)\<rparr>) = (r1, c1)" and
    rest: "case r1 of
             Inl e \<Rightarrow> createBillWithItems bill c = (Inl e, c)
           | Inr billId \<Rightarrow>
              (\<exists>r2 c2. add_lines billId (cb_items bill) 0 c1 = (r2, c2) \<and>
                 (case r2 of
                    Inl e \<Rightarrow> createBillWithItems bill c = (Inl e, c)
                  | Inr tot \<Rightarrow>
                     tot = sum_list (map line_total (cb_items bill)) \<and>
                     createBillWithItems bill c =
                       (Inr \<lparr>bill_id = billId, bill_name = cb_name bill,
                             bill_studentId = cb_studentId bill,
                             bill_departmentId = cb_departmentId bill,
                             bill_totalAmount = tot, bill_dueDate = cb_dueDate bill,
                             bill_note = cb_note bill\<rparr>,
                        (snd (update_bills_totalAmount ''bills'' tot billId c2))\<lparr>txn := None\<rparr>)))"
    by blast
  from rest assms obtain billId where r1: "r1 = Inr billId" by (cases r1) auto
  from rest r1 obtain r2 c2 where
    lines: "add_lines billId (cb_items bill) 0 c1 = (r2, c2)" and
    rest2: "case r2 of
              Inl e \<Rightarrow> createBillWithItems bill c = (Inl e, c)
            | Inr tot \<Rightarrow>
               tot = sum_list (map line_total (cb_items bill)) \<and>
               createBillWithItems bill c =
                 (Inr \<lparr>bill_id = billId, bill_name = cb_name bill,
                       bill_studentId = cb_studentId bill,
                       bill_departmentId = cb_departmentId bill,
                       bill_totalAmount = tot, bill_dueDate = cb_dueDate bill,
                       bill_note = cb_note bill\<rparr>,
                  (snd (update_bills_totalAmount ''bills'' tot billId c2))\<lparr>txn := None\<rparr>)"
    by auto
  from rest2 assms obtain tt where r2: "r2 = Inr tt" by (cases r2) auto
  from rest2 r2 assms have
    tt: "tt = sum_list (map line_total (cb_items bill))" and
    b: "b = \<lparr>bill_id = billId, bill_name = cb_name bill, bill_studentId = cb_studentId bill,
             bill_departmentId = cb_departmentId bill, bill_totalAmount = tt,
             bill_dueDate = cb_dueDate bill, bill_note = cb_note bill\<rparr>" and
    c': "c' = (snd (update_bills_totalAmount ''bills'' tt billId c2))\<lparr>txn := None\<rparr>"
    by simp_all
  have "list_ex (\<lambda>row. b_id row = billId) (rows (bills (store c1)))"
    using insert_bills_row ins r1 by blast
  then have "list_ex (\<lambda>row. b_id row = billId) (rows (bills (store c2)))"
    using add_lines_run [OF lines] by simp
  from update_bills_totalAmount_row [OF this, of tt]
  show ?thesis by (simp add: b c' tt)
qed

text \<open>
  C2 on the code.  A line with amount 100 and quantity 0 is billed 100: \<^verbatim>\<open>item.quantity || 1\<close>
  takes the quantity 0 for a missing one, and the relation row is stored with quantity 1.
  The total of the claim for that line, where only a missing quantity defaults to 1, is
  \<open>100 \<times> 0 - 0 = 0\<close>.
\<close>

theorem createBillWithItems_zero_quantity:
  "fst (createBillWithItems zero_quantity_bill school) =
     Inr \<lparr>bill_id = 1, bill_name = ''Term1'', bill_studentId = 1, bill_departmentId = 1,
          bill_totalAmount = 100, bill_dueDate = None, bill_note = None\<rparr> \<and>
   map b_totalAmount (rows (bills (store (snd (createBillWithItems zero_quantity_bill school))))) =
     [100] \<and>
   map bir_quantity
     (rows (bill_item_relations (store (snd (createBillWithItems zero_quantity_bill school))))) =
     [Some 1] \<and>
   spec_bill_total (cb_items zero_quantity_bill) = 0"
  by code_simp

text \<open>
  C3.  When \<^verbatim>\<open>createBillWithItems\<close>, called with no transaction open, throws, the connection
  is back in the state of the call: the transaction is rolled back, so no bill row and no
  relation row of the call persists.  The error thrown is the error of the statement that
  failed, which is the insert of the bill or the insert of one of the items (the update
  and the commit do not fail).
\<close>

theorem createBillWithItems_failure_rolls_back:
  assumes "txn c = None" and "createBillWithItems bill c = (Inl e, c')"
  shows "c' = c \<and>
    ((\<exists>c1. insert_bills ''bills'' (cb_name bill) (cb_studentId bill) (cb_departmentId bill) 0
             (string_or_null (cb_dueDate bill)) (Some ''pending'') (string_or_null (cb_note bill))
             (c\<lparr>txn := Some (store c)\<rparr>) = (Inl e, c1)) \<or>
     (\<exists>billId c1 c2.
        insert_bills ''bills'' (cb_name bill) (cb_studentId bill) (cb_departmentId bill) 0
          (string_or_null (cb_dueDate bill)) (Some ''pending'') (string_or_null (cb_note bill))
          (c\<lparr>txn := Some (store c)\<rparr>) = (Inr billId, c1) \<and>
        add_lines billId (cb_items bill) 0 c1 = (Inl e, c2)))"
proof -
  from createBillWithItems_steps [OF assms(1), of bill] obtain r1 c1 where
    ins: "insert_bills ''bills'' (cb_name bill) (cb_studentId bill) (cb_departmentId bill) 0
             (string_or_null (cb_dueDate bill)) (Some ''pending'') (string_or_null (cb_note bill))
             (c\<lparr>txn := Some (store c)\<rparr>) = (r1, c1)" and
    rest: "case r1 of
             Inl e \<Rightarrow> createBillWithItems bill c = (Inl e, c)
           | Inr billId \<Rightarrow>
              (\<exists>r2 c2. add_lines billId (cb_items bill) 0 c1 = (r2, c2) \<and>
                 (case r2 of
                    Inl e \<Rightarrow> createBillWithItems bill c = (Inl e, c)
                  | Inr tot \<Rightarrow>
                     tot = sum_list (map line_total (cb_items bill)) \<and>
                     createBillWithItems bill c =
                       (Inr \<lparr>bill_id = billId, bill_name = cb_name bill,
                             bill_studentId = cb_studentId bill,
                             bill_departmentId = cb_departmentId bill,
                             bill_totalAmount = tot, bill_dueDate = cb_dueDate bill,
                             bill_note = cb_note bill\<rparr>,
                        (snd (update_bills_totalAmount ''bills'' tot billId c2))\<lparr>txn := None\<rparr>)))"
    by blast
  show ?thesis
  proof (cases r1)
    case (Inl e1)
    with rest assms(2) have "c' = c" and "e1 = e" by simp_all
    with ins Inl show ?thesis by blast
  next
    case (Inr billId)
    with rest obtain r2 c2 where
      lines: "add_lines billId (cb_items bill) 0 c1 = (r2, c2)" and
      rest2: "case r2 of
                Inl e \<Rightarrow> createBillWithItems bill c = (Inl e, c)
              | Inr tot \<Rightarrow>
                 tot = sum_list (map line_total (cb_items bill)) \<and>
                 createBillWithItems bill c =
                   (Inr \<lparr>bill_id = billId, bill_name = cb_name bill,
                         bill_studentId = cb_studentId bill,
                         bill_departmentId = cb_departmentId bill,
                         bill_totalAmount = tot, bill_dueDate = cb_dueDate bill,
                         bill_note = cb_note bill\<rparr>,
                    (snd (update_bills_totalAmount ''bills'' tot billId c2))\<lparr>txn := None\<rparr>)"
      by auto
    show ?thesis
    proof (cases r2)
      case (Inl e2)
      with rest2 assms(2) have "c' = c" and "e2 = e" by simp_all
      with ins Inr lines Inl show ?thesis by blast
    next
      case (Inr tot)
      with rest2 assms(2) show ?thesis by simp
    qed
  qed
qed

lemma createBillWithItems_dangling_item:
  "createBillWithItems dangling_item_bill school = (Inl ForeignKeyFailed, school)"
  by code_simp

theorem createBillWithItems_failure_rolls_back_witness:
  "txn school = None \<and>
   createBillWithItems dangling_item_bill school = (Inl ForeignKeyFailed, school) \<and>
   rows (bills (store school)) = [] \<and> rows (bill_item_relations (store school)) = []"
proof -
  have t: "txn school = None" by (simp add: school_def)
  from createBillWithItems_failure_rolls_back [OF t createBillWithItems_dangling_item]
  have "school = school" by simp
  then show ?thesis
    using t createBillWithItems_dangling_item by (simp add: school_def school_store_def)
qed

text \<open>\<^verbatim>\<open>initDatabase\<close> switches the enforcement of foreign keys on only in the run that finds
  the file below \<^verbatim>\<open>DATABASE_VERSION\<close>; on a file already at that version it leaves the
  connection as it found it.\<close>

lemma initDatabase_foreign_keys:
  "currentDbVersion < DATABASE_VERSION \<Longrightarrow> foreign_keys (snd (initDatabase currentDbVersion c))"
  "DATABASE_VERSION \<le> currentDbVersion \<Longrightarrow> snd (initDatabase currentDbVersion c) = c"
  by (simp_all add: initDatabase_def)

text \<open>The same payload on a connection that does not enforce foreign keys goes through,
  and the bill persists with its dangling item.\<close>

lemma createBillWithItems_dangling_item_unenforced:
  "fst (createBillWithItems dangling_item_bill (school\<lparr>foreign_keys := False\<rparr>)) =
     Inr \<lparr>bill_id = 1, bill_name = ''Term1'', bill_studentId = 1, bill_departmentId = 1,
          bill_totalAmount = 100, bill_dueDate = None, bill_note = None\<rparr>"
  by code_simp

section \<open>\<^verbatim>\<open>createBillsForDepartment\<close>\<close>

lemma getAllAsync_departments_nonempty:
  "department_exists c d \<Longrightarrow>
   \<exists>r rs. getAllAsync [(''departments'', Departments)]
      (\<lambda>s. filter (\<lambda>r. d_id r = d) (rows (departments s))) c = (Inr (r # rs), c)"
proof -
  assume "department_exists c d"
  then have "filter (\<lambda>r. d_id r = d) (rows (departments (store c))) \<noteq> []"
    by (auto simp: department_exists_def filter_empty_conv)
  then show ?thesis by (cases "filter (\<lambda>r. d_id r = d) (rows (departments (store c)))")
      (simp_all add: getAllAsync_def)
qed

text \<open>
  C1 on the code.  From a connection with no transaction open, \<^verbatim>\<open>createBillsForDepartment\<close>
  never returns a result.  For a department that exists, its query for the enrolled students
  joins a table named \<^verbatim>\<open>studentDepartments\<close>, which the schema does not create (the junction
  table is \<^verbatim>\<open>student_departments\<close>); the error reaches the outer \<^verbatim>\<open>catch\<close>, the transaction
  is rolled back and the error rethrown.  No bill is created.
\<close>

theorem createBillsForDepartment_throws:
  assumes "txn c = None"
  shows "createBillsForDepartment departmentId billItems billName c =
    (Inl (if department_exists c departmentId
          then NoSuchTable ''studentDepartments''
          else JsError (''Department with ID '' @ show_int departmentId @ '' not found'')), c)"
proof (cases "department_exists c departmentId")
  case True
  let ?c0 = "c\<lparr>txn := Some (store c)\<rparr>"
  have "department_exists ?c0 departmentId" using True by (simp add: department_exists_def)
  from getAllAsync_departments_nonempty [OF this] obtain r rs where
    "getAllAsync [(''departments'', Departments)]
      (\<lambda>s. filter (\<lambda>r. d_id r = departmentId) (rows (departments s))) ?c0 = (Inr (r # rs), ?c0)"
    by blast
  then show ?thesis
    using True assms conn_txn_None [OF assms]
    by (simp add: createBillsForDepartment_def sql_bind_def sql_catch_def sql_throw_def
        exec_BEGIN_def exec_ROLLBACK_def getAllAsync_def)
next
  case False
  then have "filter (\<lambda>r. d_id r = departmentId) (rows (departments (store c))) = []"
    by (auto simp: department_exists_def filter_empty_conv)
  then show ?thesis
    using False assms conn_txn_None [OF assms]
    by (simp add: createBillsForDepartment_def sql_bind_def sql_catch_def sql_throw_def
        exec_BEGIN_def exec_ROLLBACK_def getAllAsync_def)
qed

theorem createBillsForDepartment_throws_witness:
  "txn school = None \<and> department_exists school 1 \<and>
   map bi_amount (department_items school 1) = [100, 20] \<and>
   length (students_joined (\<lambda>sd. sd_departmentId sd = 1 \<and> sd_isActive sd) (store school)) = 2 \<and>
   createBillsForDepartment 1
     [\<lparr>req_billItemId = 1, req_amount = None, req_quantity = None\<rparr>,
      \<lparr>req_billItemId = 2, req_amount = None, req_quantity = None\<rparr>] ''Term1'' school =
     (Inl (NoSuchTable ''studentDepartments''), school)"
proof -
  have t: "txn school = None" by (simp add: school_def)
  have d: "department_exists school 1"
    by (simp add: department_exists_def school_def school_store_def)
  have i: "map bi_amount (department_items school 1) = [100, 20]"
    by (simp add: department_items_def school_def school_store_def an_item_def)
  have s: "length (students_joined (\<lambda>sd. sd_departmentId sd = 1 \<and> sd_isActive sd)
      (store school)) = 2"
    by (simp add: students_joined_def school_def school_store_def an_enrollment_def a_student_def)
  from createBillsForDepartment_throws [OF t, of 1
      "[\<lparr>req_billItemId = 1, req_amount = None, req_quantity = None\<rparr>,
        \<lparr>req_billItemId = 2, req_amount = None, req_quantity = None\<rparr>]" "''Term1''"] t d i s
  show ?thesis by simp
qed


section \<open>\<^verbatim>\<open>updateDepartment\<close>\<close>

lemma update_departments_run:
  "\<exists>n c'. update_departments ''departments'' department i c = (Inr n, c') \<and>
     same_session c c' \<and> bill_items (store c') = bill_items (store c)"
  by (simp add: update_departments_def same_session_def Let_def)

lemma delete_bill_items_of_department_run:
  "\<exists>n c'. delete_bill_items_of_department ''bill_items'' i c = (Inr n, c') \<and>
     same_session c c' \<and>
     rows (bill_items (store c')) =
       filter (\<lambda>r. bi_departmentId r \<noteq> i) (rows (bill_items (store c)))"
  by (simp add: delete_bill_items_of_department_def same_session_def Let_def)

lemma addBillItem_run:
  assumes "addBillItem billItem c = (r, c')"
  shows "same_session c c' \<and>
    (case r of
       Inl e \<Rightarrow> True
     | Inr b \<Rightarrow>
        (\<exists>i. rows (bill_items (store c')) =
               rows (bill_items (store c)) @
                 [\<lparr>bi_id = i, bi_name = nb_name billItem, bi_amount = nb_amount billItem,
                   bi_departmentId = nb_departmentId billItem,
                   bi_description = nb_description billItem,
                   bi_category = nb_category billItem,
                   bi_isRequired = nb_isRequired billItem, bi_isActive = Some True\<rparr>]))"
  using assms
  by (auto simp: addBillItem_def insert_bill_items_def sql_catch_def sql_bind_def sql_return_def
      sql_throw_def same_session_def Let_def split: if_splits)

text \<open>The loop adds, at the end of the table and in order, one row per supplied item, each
  tagged with the department.\<close>

lemma add_items_run:
  "add_items i billItems c = (r, c') \<Longrightarrow>
   same_session c c' \<and>
   (r = Inr () \<longrightarrow>
     (\<exists>new. rows (bill_items (store c')) = rows (bill_items (store c)) @ new \<and>
            map item_fields new = billItems \<and>
            list_all (\<lambda>row. bi_departmentId row = i) new))"
proof (induction billItems arbitrary: c)
  case Nil
  then show ?case by (auto simp: sql_return_def)
next
  case (Cons item billItems)
  let ?nb = "\<lparr>nb_name = bf_name item, nb_amount = bf_amount item, nb_departmentId = i,
              nb_description = bf_description item, nb_category = bf_category item,
              nb_isRequired = bf_isRequired item\<rparr>"
  obtain r1 c1 where add: "addBillItem ?nb c = (r1, c1)" by (cases "addBillItem ?nb c")
  from addBillItem_run [OF add] have s1: "same_session c c1" by simp
  show ?case
  proof (cases r1)
    case (Inl e)
    with Cons.prems add have "r = Inl e" and "c' = c1"
      by (simp_all add: sql_bind_def)
    with s1 show ?thesis by simp
  next
    case (Inr b)
    with addBillItem_run [OF add] obtain k where
      rows1: "rows (bill_items (store c1)) =
        rows (bill_items (store c)) @
          [\<lparr>bi_id = k, bi_name = bf_name item, bi_amount = bf_amount item, bi_departmentId = i,
            bi_description = bf_description item, bi_category = bf_category item,
            bi_isRequired = bf_isRequired item, bi_isActive = Some True\<rparr>]"
      by auto
    from Cons.prems add Inr have rest: "add_items i billItems c1 = (r, c')"
      by (simp add: sql_bind_def)
    from Cons.IH [OF rest] have s2: "same_session c1 c'"
      and new: "r = Inr () \<longrightarrow>
        (\<exists>new. rows (bill_items (store c')) = rows (bill_items (store c1)) @ new \<and>
               map item_fields new = billItems \<and>
               list_all (\<lambda>row. bi_departmentId row = i) new)"
      by simp_all
    have "r = Inr () \<longrightarrow>
        (\<exists>new. rows (bill_items (store c')) = rows (bill_items (store c)) @ new \<and>
               map item_fields new = item # billItems \<and>
               list_all (\<lambda>row. bi_departmentId row = i) new)"
    proof
      assume "r = Inr ()"
      with new obtain new where
        n: "rows (bill_items (store c')) = rows (bill_items (store c1)) @ new"
           "map item_fields new = billItems" "list_all (\<lambda>row. bi_departmentId row = i) new"
        by blast
      let ?row = "\<lparr>bi_id = k, bi_name = bf_name item, bi_amount = bf_amount item,
            bi_departmentId = i, bi_description = bf_description item,
            bi_category = bf_category item, bi_isRequired = bf_isRequired item,
            bi_isActive = Some True\<rparr>"
      have a: "rows (bill_items (store c')) = rows (bill_items (store c)) @ (?row # new)"
        using n(1) rows1 by simp
      have b: "map item_fields (?row # new) = item # billItems"
        using n(2) by (simp add: item_fields_def)
      have c: "list_all (\<lambda>row. bi_departmentId row = i) (?row # new)"
        using n(3) by simp
      show "\<exists>new. rows (bill_items (store c')) = rows (bill_items (store c)) @ new \<and>
               map item_fields new = item # billItems \<and>
               list_all (\<lambda>row. bi_departmentId row = i) new"
        by (rule exI [of _ "?row # new"]) (intro conjI a b c)
    qed
    with same_session_trans [OF s1 s2] show ?thesis by simp
  qed
qed

lemma filter_department_appended:
  assumes "list_all (\<lambda>row. bi_departmentId row = i) new"
  shows "filter (\<lambda>r. bi_departmentId r = i) (filter (\<lambda>r. bi_departmentId r \<noteq> i) old @ new) = new"
    and "filter (\<lambda>r. bi_departmentId r \<noteq> i) (filter (\<lambda>r. bi_departmentId r \<noteq> i) old @ new) =
         filter (\<lambda>r. bi_departmentId r \<noteq> i) old"
proof -
  have a: "filter (\<lambda>r. bi_departmentId r = i) new = new"
    using assms by (induction new) simp_all
  have b: "filter (\<lambda>r. bi_departmentId r \<noteq> i) new = []"
    using assms by (induction new) simp_all
  have c: "filter (\<lambda>r. bi_departmentId r = i) (filter (\<lambda>r. bi_departmentId r \<noteq> i) old) = []"
    by (induction old) simp_all
  show "filter (\<lambda>r. bi_departmentId r = i) (filter (\<lambda>r. bi_departmentId r \<noteq> i) old @ new) = new"
    using a c by simp
  show "filter (\<lambda>r. bi_departmentId r \<noteq> i) (filter (\<lambda>r. bi_departmentId r \<noteq> i) old @ new) =
         filter (\<lambda>r. bi_departmentId r \<noteq> i) old"
    using b by simp
qed

lemma updateDepartment_no_id:
  assumes "dep_id department = None \<or> dep_id department = Some 0"
  shows "updateDepartment department c =
    (Inl (JsError ''Department ID is required for update''), c)"
  using assms by (auto simp: updateDepartment_def sql_throw_def)

lemma updateDepartment_without_items:
  assumes "txn c = None" "dep_id department = Some i" "i \<noteq> 0" "dep_billItems department = None"
  shows "\<exists>c'. updateDepartment department c = (Inr department, c') \<and>
           bill_items (store c') = bill_items (store c)"
proof -
  let ?c0 = "c\<lparr>txn := Some (store c)\<rparr>"
  from update_departments_run [of department i ?c0] obtain n c1 where
    upd: "update_departments ''departments'' department i ?c0 = (Inr n, c1)" and
    s1: "same_session ?c0 c1" and b1: "bill_items (store c1) = bill_items (store ?c0)"
    by blast
  have "txn c1 = Some (store c)" using s1 by (simp add: same_session_def)
  then have "updateDepartment department c = (Inr department, c1\<lparr>txn := None\<rparr>)"
    using assms upd
    by (simp add: updateDepartment_def sql_bind_def sql_catch_def sql_return_def
        exec_BEGIN_def exec_COMMIT_def)
  then show ?thesis using b1 by simp
qed

lemma updateDepartment_with_items:
  assumes t: "txn c = None" and i: "dep_id department = Some i" "i \<noteq> 0"
    and items: "dep_billItems department = Some billItems"
    and run: "updateDepartment department c = (r, c')"
  shows "case r of
           Inl e \<Rightarrow> c' = c
         | Inr d \<Rightarrow>
             d = department \<and>
             map item_fields (department_items c' i) = billItems \<and>
             filter (\<lambda>row. bi_departmentId row \<noteq> i) (rows (bill_items (store c'))) =
               filter (\<lambda>row. bi_departmentId row \<noteq> i) (rows (bill_items (store c)))"
proof -
  let ?c0 = "c\<lparr>txn := Some (store c)\<rparr>"
  from update_departments_run [of department i ?c0] obtain n c1 where
    upd: "update_departments ''departments'' department i ?c0 = (Inr n, c1)" and
    s1: "same_session ?c0 c1" and b1: "bill_items (store c1) = bill_items (store ?c0)"
    by blast
  from delete_bill_items_of_department_run [of i c1] obtain m c2 where
    del: "delete_bill_items_of_department ''bill_items'' i c1 = (Inr m, c2)" and
    s2: "same_session c1 c2" and
    b2: "rows (bill_items (store c2)) =
           filter (\<lambda>r. bi_departmentId r \<noteq> i) (rows (bill_items (store c1)))"
    by blast
  obtain r3 c3 where add: "add_items i billItems c2 = (r3, c3)"
    by (cases "add_items i billItems c2")
  from add_items_run [OF add] have s3: "same_session c2 c3"
    and b3: "r3 = Inr () \<longrightarrow>
      (\<exists>new. rows (bill_items (store c3)) = rows (bill_items (store c2)) @ new \<and>
             map item_fields new = billItems \<and>
             list_all (\<lambda>row. bi_departmentId row = i) new)"
    by simp_all
  have s03: "same_session ?c0 c3"
    using s1 s2 s3 by (blast intro: same_session_trans)
  show ?thesis
  proof (cases r3)
    case (Inl e)
    have "updateDepartment department c = (Inl e, c)"
      using t i items upd del add Inl rollback_restores [OF t s03]
      by (simp add: updateDepartment_def sql_bind_def sql_catch_def sql_throw_def exec_BEGIN_def)
    with run show ?thesis by auto
  next
    case (Inr u)
    then have r3: "r3 = Inr ()" by simp
    with b3 obtain new where
      n: "rows (bill_items (store c3)) = rows (bill_items (store c2)) @ new"
         "map item_fields new = billItems" "list_all (\<lambda>row. bi_departmentId row = i) new"
      by blast
    have "txn c3 = Some (store c)" using s03 by (simp add: same_session_def)
    then have "updateDepartment department c = (Inr department, c3\<lparr>txn := None\<rparr>)"
      using t i items upd del add r3
      by (simp add: updateDepartment_def sql_bind_def sql_catch_def sql_return_def
          exec_BEGIN_def exec_COMMIT_def)
    with run have r: "r = Inr department" and c': "c' = c3\<lparr>txn := None\<rparr>" by simp_all
    have rows': "rows (bill_items (store c')) =
        filter (\<lambda>r. bi_departmentId r \<noteq> i) (rows (bill_items (store c))) @ new"
      using n(1) b2 b1 c' by simp
    show ?thesis
      using filter_department_appended [OF n(3), of "rows (bill_items (store c))"] n(2)
      by (simp add: r rows' department_items_def)
  qed
qed

text \<open>
  C7.  Called with no transaction open, \<^verbatim>\<open>updateDepartment\<close> either throws and leaves the
  connection as it was (the one transaction is rolled back wholesale; a missing id throws
  before it begins), or returns, and then: when a \<^verbatim>\<open>billItems\<close> array is supplied, the rows of
  \<^verbatim>\<open>bill_items\<close> for the department are exactly the supplied items, in order (the stored ones
  deleted, the supplied ones inserted), and the rows of the other departments are as
  before; when none is supplied, \<^verbatim>\<open>bill_items\<close> is unchanged.
\<close>

theorem updateDepartment_replaces_bill_items:
  assumes "txn c = None" and "updateDepartment department c = (r, c')"
  shows "case r of
           Inl e \<Rightarrow> c' = c
         | Inr d \<Rightarrow>
            (case dep_billItems department of
               None \<Rightarrow> bill_items (store c') = bill_items (store c)
             | Some billItems \<Rightarrow>
                (\<exists>i. dep_id department = Some i \<and>
                   map item_fields (department_items c' i) = billItems \<and>
                   filter (\<lambda>row. bi_departmentId row \<noteq> i) (rows (bill_items (store c'))) =
                     filter (\<lambda>row. bi_departmentId row \<noteq> i) (rows (bill_items (store c)))))"
proof (cases "dep_id department = None \<or> dep_id department = Some 0")
  case True
  from updateDepartment_no_id [OF this] assms(2) show ?thesis by auto
next
  case False
  then obtain i where i: "dep_id department = Some i" "i \<noteq> 0" by auto
  show ?thesis
  proof (cases "dep_billItems department")
    case None
    from updateDepartment_without_items [OF assms(1) i None] assms(2)
    show ?thesis using None by auto
  next
    case (Some billItems)
    from updateDepartment_with_items [OF assms(1) i Some assms(2)]
    show ?thesis using Some i by (cases r) auto
  qed
qed

lemma updateDepartment_school:
  "updateDepartment science_with_lab school =
    (Inr science_with_lab,
     school\<lparr>store := school_store
       \<lparr>departments :=
          \<lparr>rows = [\<lparr>d_id = 1, d_name = ''Science'', d_term = ''Term2'', d_year = ''2025'',
                     d_description = None, d_startDate = None, d_endDate = None,
                     d_isActive = True\<rparr>], seq = 1\<rparr>,
        bill_items :=
          \<lparr>rows = [\<lparr>bi_id = 3, bi_name = ''Lab'', bi_amount = 50, bi_departmentId = 1,
                     bi_description = None, bi_category = None, bi_isRequired = None,
                     bi_isActive = Some True\<rparr>], seq = 3\<rparr>\<rparr>\<rparr>)"
  by code_simp

lemma updateDepartment_unknown_department:
  "updateDepartment (science_with_lab\<lparr>dep_id := Some 9\<rparr>) school = (Inl ForeignKeyFailed, school)"
  by code_simp

theorem updateDepartment_replaces_bill_items_witness:
  "txn school = None \<and>
   updateDepartment (science_with_lab\<lparr>dep_id := Some 9\<rparr>) school = (Inl ForeignKeyFailed, school) \<and>
   fst (updateDepartment science_with_lab school) = Inr science_with_lab \<and>
   dep_billItems science_with_lab =
     Some [\<lparr>bf_name = ''Lab'', bf_amount = 50, bf_description = None, bf_category = None,
            bf_isRequired = None\<rparr>] \<and>
   map item_fields (department_items (snd (updateDepartment science_with_lab school)) 1) =
     [\<lparr>bf_name = ''Lab'', bf_amount = 50, bf_description = None, bf_category = None,
       bf_isRequired = None\<rparr>]"
proof -
  have t: "txn school = None" by (simp add: school_def)
  from updateDepartment_replaces_bill_items [OF t updateDepartment_school]
  have "map item_fields (department_items (snd (updateDepartment science_with_lab school)) 1) =
     [\<lparr>bf_name = ''Lab'', bf_amount = 50, bf_description = None, bf_category = None,
       bf_isRequired = None\<rparr>]"
    by (simp add: science_with_lab_def updateDepartment_school [unfolded science_with_lab_def])
  then show ?thesis
    using t updateDepartment_unknown_department updateDepartment_school
    by (simp add: science_with_lab_def)
qed


section \<open>\<^verbatim>\<open>searchStudents\<close>\<close>

lemma length_insert_by: "length (insert_by le x ys) = Suc (length ys)"
  by (induction ys) simp_all

lemma length_foldr_insert_by: "length (foldr (insert_by le) xs []) = length xs"
  by (induction xs) (simp_all add: length_insert_by)

lemma order_by_length: "order_by ord rs = Inr ys \<Longrightarrow> length ys = length rs"
  by (auto simp: order_by_def length_foldr_insert_by split: option.splits prod.splits)

text \<open>When the query without \<^verbatim>\<open>LIMIT\<close> runs, so does the query with it, and so does the count,
  which counts the rows of the former.\<close>

lemma select_students_window:
  assumes "select_students conds ord None c = (Inr found, c')"
  shows "select_students conds ord (Some (l, off)) c = (Inr (limit_offset l off found), c) \<and>
         count_students conds c = (Inr (int (length found)), c)"
proof -
  from assms obtain p where p: "compile_where conds = Inr p"
    by (cases "compile_where conds") (simp_all add: select_students_def)
  with assms have ord: "order_by ord (filter p (rows (students (store c)))) = Inr found"
    by (cases "order_by ord (filter p (rows (students (store c))))")
      (simp_all add: select_students_def)
  from order_by_length [OF ord] p ord show ?thesis
    by (simp add: select_students_def count_students_def)
qed

lemma limit_offset_zero: "limit_offset 0 off rs = []"
  by (simp add: limit_offset_def)

lemma limit_offset_page_zero: "0 < n \<Longrightarrow> limit_offset n ((0 - 1) * n) rs = take (nat n) rs"
  by (simp add: limit_offset_def)

text \<open>
  C8, as amended.  \<^verbatim>\<open>searchStudents\<close> validates neither \<^verbatim>\<open>page\<close> nor \<^verbatim>\<open>pageSize\<close>.  Whenever the
  same search without pagination returns its rows, the search with pagination returns a
  result too, for every page and page size: it echoes \<^verbatim>\<open>page\<close> and \<^verbatim>\<open>pageSize\<close>, its total is
  the number of matching rows, and its data are the matching rows cut by
  \<^verbatim>\<open>LIMIT pageSize OFFSET (page - 1) * pageSize\<close>.  So with \<^verbatim>\<open>pageSize = 0\<close> it returns no rows
  and a \<^verbatim>\<open>totalPages\<close> that is \<^verbatim>\<open>Infinity\<close> (\<^verbatim>\<open>NaN\<close> when nothing matches), and with \<^verbatim>\<open>page = 0\<close>
  and a positive \<^verbatim>\<open>pageSize\<close> it returns the first \<^verbatim>\<open>pageSize\<close> rows, as page 1 does.
\<close>

theorem searchStudents_unvalidated_pagination:
  assumes "pagination options = Some pg"
    and "searchStudents (options\<lparr>pagination := None\<rparr>) c = (Inr unpaged, c0)"
  shows "\<exists>r. searchStudents options c = (Inr r, c) \<and>
           pr_page r = page pg \<and> pr_pageSize r = pageSize pg \<and>
           pr_total r = int (length (pr_data unpaged)) \<and>
           pr_data r =
             limit_offset (pageSize pg) ((page pg - 1) * pageSize pg) (pr_data unpaged) \<and>
           pr_totalPages r = ceil_div (int (length (pr_data unpaged))) (pageSize pg) \<and>
           (pageSize pg = 0 \<longrightarrow>
              pr_data r = [] \<and>
              pr_totalPages r = (if pr_data unpaged = [] then NaN else Infinity)) \<and>
           (page pg = 0 \<and> 0 < pageSize pg \<longrightarrow>
              pr_data r = take (nat (pageSize pg)) (pr_data unpaged))"
proof -
  let ?wc = "(if includeInactive options = Some True then [] else [IsActive]) @
             (case searchOptions options of
                None \<Rightarrow> []
              | Some so \<Rightarrow> if so_query so \<noteq> [] then buildSearchConditions so else [])"
  let ?ord = "(case searchOptions options of
                None \<Rightarrow> None
              | Some so \<Rightarrow>
                 (case so_sortBy so of
                    None \<Rightarrow> None
                  | Some field \<Rightarrow>
                     if field = [] then None
                     else Some (field, case so_sortOrder so of None \<Rightarrow> Asc | Some dir \<Rightarrow> dir)))"
  obtain r1 c1 where sel: "select_students ?wc ?ord None c = (r1, c1)"
    by (cases "select_students ?wc ?ord None c")
  from assms(2) sel obtain found where r1: "r1 = Inr found" and u: "pr_data unpaged = found"
    by (cases r1)
      (auto simp: searchStudents_def sql_catch_def sql_bind_def sql_return_def sql_throw_def
        Let_def)
  from select_students_window [OF sel [unfolded r1]]
  have paged: "select_students ?wc ?ord
        (Some (pageSize pg, (page pg - 1) * pageSize pg)) c =
        (Inr (limit_offset (pageSize pg) ((page pg - 1) * pageSize pg) found), c)"
    and cnt: "count_students ?wc c = (Inr (int (length found)), c)"
    by simp_all
  let ?r = "\<lparr>pr_data = limit_offset (pageSize pg) ((page pg - 1) * pageSize pg) found,
             pr_total = int (length found), pr_page = page pg, pr_pageSize = pageSize pg,
             pr_totalPages = ceil_div (int (length found)) (pageSize pg)\<rparr>"
  have run: "searchStudents options c = (Inr ?r, c)"
    using assms(1) paged cnt
    by (simp add: searchStudents_def sql_catch_def sql_bind_def sql_return_def Let_def)
  have zero: "pageSize pg = 0 \<longrightarrow>
      pr_data ?r = [] \<and> pr_totalPages ?r = (if found = [] then NaN else Infinity)"
    by (simp add: limit_offset_zero ceil_div_def)
  have first: "page pg = 0 \<and> 0 < pageSize pg \<longrightarrow> pr_data ?r = take (nat (pageSize pg)) found"
    using limit_offset_page_zero [of "pageSize pg" found] by auto
  show ?thesis
    by (rule exI [of _ ?r]) (use run zero first u in simp)
qed

lemma searchStudents_school_unpaged:
  "searchStudents \<lparr>searchOptions = None, pagination = None, includeInactive = None\<rparr> school =
    (Inr \<lparr>pr_data = [a_student 1 ''Ama'' ''Mensah'', a_student 2 ''Kofi'' ''Boateng''],
          pr_total = 2, pr_page = 1, pr_pageSize = 2, pr_totalPages = Finite 1\<rparr>, school)"
  by code_simp

theorem searchStudents_unvalidated_pagination_witness:
  "searchStudents \<lparr>searchOptions = None, pagination = None, includeInactive = None\<rparr> school =
    (Inr \<lparr>pr_data = [a_student 1 ''Ama'' ''Mensah'', a_student 2 ''Kofi'' ''Boateng''],
          pr_total = 2, pr_page = 1, pr_pageSize = 2, pr_totalPages = Finite 1\<rparr>, school) \<and>
   searchStudents
     \<lparr>searchOptions = None, pagination = Some \<lparr>page = 0, pageSize = 1\<rparr>,
      includeInactive = None\<rparr> school =
    (Inr \<lparr>pr_data = [a_student 1 ''Ama'' ''Mensah''],
          pr_total = 2, pr_page = 0, pr_pageSize = 1, pr_totalPages = Finite 2\<rparr>, school)"
proof -
  let ?options = "\<lparr>searchOptions = None, pagination = Some \<lparr>page = 0, pageSize = 1\<rparr>,
      includeInactive = None\<rparr>"
  have u: "searchStudents (?options\<lparr>pagination := None\<rparr>) school =
    (Inr \<lparr>pr_data = [a_student 1 ''Ama'' ''Mensah'', a_student 2 ''Kofi'' ''Boateng''],
          pr_total = 2, pr_page = 1, pr_pageSize = 2, pr_totalPages = Finite 1\<rparr>, school)"
    using searchStudents_school_unpaged by simp
  from searchStudents_unvalidated_pagination [OF _ u, of "\<lparr>page = 0, pageSize = 1\<rparr>"]
  obtain r where
    "searchStudents ?options school = (Inr r, school)"
    "pr_page r = 0" "pr_pageSize r = 1" "pr_total r = 2"
    "pr_data r = [a_student 1 ''Ama'' ''Mensah'']" "pr_totalPages r = Finite 2"
    by (auto simp: ceil_div_def)
  then show ?thesis using searchStudents_school_unpaged by (cases r) simp
qed

text \<open>
  C8 as stated fails: with \<^verbatim>\<open>pageSize = 0\<close> the call returns, with no row, the total 2 and
  \<^verbatim>\<open>totalPages = Infinity\<close>; with \<^verbatim>\<open>page = 0\<close> it returns the first page and echoes page 0.
\<close>

theorem searchStudents_zero_page_counterexample:
  "fst (searchStudents
     \<lparr>searchOptions = None, pagination = Some \<lparr>page = 1, pageSize = 0\<rparr>,
      includeInactive = None\<rparr> school) =
     Inr \<lparr>pr_data = [], pr_total = 2, pr_page = 1, pr_pageSize = 0, pr_totalPages = Infinity\<rparr> \<and>
   fst (searchStudents
     \<lparr>searchOptions = None, pagination = Some \<lparr>page = 0, pageSize = 10\<rparr>,
      includeInactive = None\<rparr> school) =
     Inr \<lparr>pr_data = [a_student 1 ''Ama'' ''Mensah'', a_student 2 ''Kofi'' ''Boateng''],
          pr_total = 2, pr_page = 0, pr_pageSize = 10, pr_totalPages = Finite 1\<rparr>"
  by code_simp


end
